theory Spec2Isabelle
  imports Complex_Main "HOL-Library.Sublist" "HOL-Library.List_Lexorder" "HOL-Library.Product_Lexorder"
begin

section \<open>JavaScript strings\<close>

text \<open>
  A JavaScript string is a sequence of UTF-16 code units; a code unit is modelled by its
  number. String literals of the sources are ASCII and are written through \<open>js\<close>.
\<close>

type_synonym ustr = "nat list"

definition js :: "string \<Rightarrow> ustr" where
  "js s = map of_char s"

text \<open>
  The values the handlers compute with are those of parsed JSON, together with
  \<open>undefined\<close>. An object is the list of its members, each name occurring once.
\<close>

datatype json =
    JUndefined
  | JNull
  | JBool bool
  | JNum rat
  | JStr ustr
  | JArr "json list"
  | JObj "(ustr \<times> json) list"

text \<open>
  The runtime tables the sources rely on but do not contain: the Unicode lower-case mapping
  of the code units beyond ASCII (given the units before and after, so that context
  sensitive and surrogate-pair mappings are covered), the rendering of a number as a
  string, and the text the database stores when a JSON value other than a string or null is
  written to a text column. They are parameters of the model; every theorem holds for all of them.
\<close>

record platform =
  lowerNonAscii :: "ustr \<Rightarrow> nat \<Rightarrow> ustr \<Rightarrow> ustr"
  numberToString :: "rat \<Rightarrow> ustr"
  dbText :: "json \<Rightarrow> ustr option"

text \<open>The class \<open>\s\<close> of a JavaScript regular expression, which is also what \<open>trim\<close> strips.\<close>

definition isWhiteSpace :: "nat \<Rightarrow> bool" where
  "isWhiteSpace c \<longleftrightarrow>
     c = 9 \<or> c = 10 \<or> c = 11 \<or> c = 12 \<or> c = 13 \<or> c = 32 \<or> c = 160 \<or> c = 5760 \<or>
     (8192 \<le> c \<and> c \<le> 8202) \<or> c = 8232 \<or> c = 8233 \<or> c = 8239 \<or> c = 8287 \<or>
     c = 12288 \<or> c = 65279"

text \<open>The class \<open>[a-z0-9-]\<close>.\<close>

definition isSlugUnit :: "nat \<Rightarrow> bool" where
  "isSlugUnit c \<longleftrightarrow> (97 \<le> c \<and> c \<le> 122) \<or> (48 \<le> c \<and> c \<le> 57) \<or> c = 45"

text \<open>\<open>String.prototype.toLowerCase\<close>: ASCII capitals move by 32, other ASCII units stay.\<close>

fun lowerUnits :: "platform \<Rightarrow> ustr \<Rightarrow> ustr \<Rightarrow> ustr" where
  "lowerUnits P pre [] = []"
| "lowerUnits P pre (c # cs) =
     (if 65 \<le> c \<and> c \<le> 90 then [c + 32]
      else if c < 128 then [c]
      else lowerNonAscii P pre c cs) @ lowerUnits P (pre @ [c]) cs"

definition toLowerCase :: "platform \<Rightarrow> ustr \<Rightarrow> ustr" where
  "toLowerCase P s = lowerUnits P [] s"

text \<open>\<open>String.prototype.trim\<close>.\<close>

definition trim :: "ustr \<Rightarrow> ustr" where
  "trim s = rev (dropWhile isWhiteSpace (rev (dropWhile isWhiteSpace s)))"

text \<open>\<open>.replace(/\s+/g, "-")\<close>: every maximal run of white space becomes one hyphen.\<close>

function hyphenateSpaces :: "ustr \<Rightarrow> ustr" where
  "hyphenateSpaces [] = []"
| "hyphenateSpaces (c # cs) =
     (if isWhiteSpace c then 45 # hyphenateSpaces (dropWhile isWhiteSpace cs)
      else c # hyphenateSpaces cs)"
  by pat_completeness auto
termination
  by (relation "measure length") (auto simp: length_dropWhile_le less_Suc_eq_le)

text \<open>\<open>.replace(/[^a-z0-9-]/g, "")\<close>.\<close>

definition dropNonSlug :: "ustr \<Rightarrow> ustr" where
  "dropNonSlug s = filter isSlugUnit s"

text \<open>\<open>slugifyKey\<close> of \<open>supabase/functions/identify-tree/index.ts\<close>.\<close>

definition slugifyKey :: "platform \<Rightarrow> ustr \<Rightarrow> ustr" where
  "slugifyKey P s = dropNonSlug (hyphenateSpaces (trim (toLowerCase P s)))"

text \<open>The expression bound to \<open>plantKeyLc\<close>: \<open>plantKey.trim().toLowerCase().replace(/\s+/g, "-")\<close>.\<close>

definition plantKeyLcOf :: "platform \<Rightarrow> ustr \<Rightarrow> ustr" where
  "plantKeyLcOf P k = hyphenateSpaces (toLowerCase P (trim k))"

section \<open>Operations on JavaScript values\<close>

text \<open>Truthiness, \<open>a || b\<close> and \<open>a ?? b\<close>.\<close>

fun truthy :: "json \<Rightarrow> bool" where
  "truthy JUndefined = False"
| "truthy JNull = False"
| "truthy (JBool b) = b"
| "truthy (JNum n) = (n \<noteq> 0)"
| "truthy (JStr s) = (s \<noteq> [])"
| "truthy (JArr xs) = True"
| "truthy (JObj kvs) = True"

definition orElse :: "json \<Rightarrow> json \<Rightarrow> json" where
  "orElse a b = (if truthy a then a else b)"

definition nullish :: "json \<Rightarrow> json \<Rightarrow> json" where
  "nullish a b = (if a = JUndefined \<or> a = JNull then b else a)"

text \<open>
  \<open>v?.name\<close> for the member names the sources use (none of them is a built-in member of
  a string, a number, a boolean or an array), and \<open>v?.[0]\<close>.
\<close>

fun getProp :: "json \<Rightarrow> string \<Rightarrow> json" where
  "getProp (JObj kvs) name = (case map_of kvs (js name) of Some v \<Rightarrow> v | None \<Rightarrow> JUndefined)"
| "getProp v name = JUndefined"

fun index0 :: "json \<Rightarrow> json" where
  "index0 (JArr xs) = (case xs of [] \<Rightarrow> JUndefined | x # _ \<Rightarrow> x)"
| "index0 (JStr s) = (case s of [] \<Rightarrow> JUndefined | c # _ \<Rightarrow> JStr [c])"
| "index0 (JObj kvs) = (case map_of kvs (js ''0'') of Some v \<Rightarrow> v | None \<Rightarrow> JUndefined)"
| "index0 v = JUndefined"

fun isNumber :: "json \<Rightarrow> bool" where
  "isNumber (JNum n) = True"
| "isNumber v = False"

fun isArray :: "json \<Rightarrow> bool" where
  "isArray (JArr xs) = True"
| "isArray v = False"

text \<open>\<open>String(v)\<close>.\<close>

fun joinWith :: "ustr \<Rightarrow> ustr list \<Rightarrow> ustr" where
  "joinWith sep [] = []"
| "joinWith sep [s] = s"
| "joinWith sep (s # t # ss) = s @ sep @ joinWith sep (t # ss)"

fun toStringJS :: "platform \<Rightarrow> json \<Rightarrow> ustr" where
  "toStringJS P JUndefined = js ''undefined''"
| "toStringJS P JNull = js ''null''"
| "toStringJS P (JBool b) = (if b then js ''true'' else js ''false'')"
| "toStringJS P (JNum n) = numberToString P n"
| "toStringJS P (JStr s) = s"
| "toStringJS P (JArr xs) =
     joinWith (js '','') (map (\<lambda>x. if x = JUndefined \<or> x = JNull then [] else toStringJS P x) xs)"
| "toStringJS P (JObj kvs) = js ''[object Object]''"

text \<open>Decimal rendering of a status code inside a template string.\<close>

function showNat :: "nat \<Rightarrow> ustr" where
  "showNat n = (if n < 10 then [48 + n] else showNat (n div 10) @ [48 + n mod 10])"
  by pat_completeness auto
termination
  by (relation "measure id") auto

text \<open>\<open>s.replace(pat, rep)\<close> with a string pattern (first occurrence) and \<open>s.includes(pat)\<close>.\<close>

fun replaceFirst :: "ustr \<Rightarrow> ustr \<Rightarrow> ustr \<Rightarrow> ustr" where
  "replaceFirst pat rep [] = (if pat = [] then rep else [])"
| "replaceFirst pat rep (c # cs) =
     (if prefix pat (c # cs) then rep @ drop (length pat) (c # cs)
      else c # replaceFirst pat rep cs)"

fun includesStr :: "ustr \<Rightarrow> ustr \<Rightarrow> bool" where
  "includesStr [] pat = (pat = [])"
| "includesStr (c # cs) pat = (prefix pat (c # cs) \<or> includesStr cs pat)"

section \<open>The outside world of a request\<close>

text \<open>
  What a handler awaits from outside is given by the environment of the request. A fetch
  either never settles or settles after some milliseconds, by rejecting with an error
  (of which \<open>String(err)\<close> is kept) or with a response. Racing it against
  \<open>setTimeout(() => controller.abort(), ms)\<close> yields the abort when it has not settled
  before the timer fires. A fetch settles with a response as soon as the head of the response
  is there; its body arrives in full or never does (\<open>res_body_arrives\<close>), and reading a
  body that never arrives never settles. Reading a body that arrives as a blob gives the blob
  or throws (\<open>Inl\<close> of \<open>String(err)\<close>); reading it as JSON gives the parsed value or throws
  (\<open>None\<close>). The text of the body is part of a response, though no handler reads it.

  The current handler is given twice. \<open>identifyAwaited\<close>, further down, is the handler with
  reads that may never settle; its value \<open>None\<close> is a request that is never answered.
  \<open>identify\<close> is what the handler does when every read it makes settles; the two agree
  whenever the handler answers. The database calls carry no timer in the sources and are
  taken as settling.
\<close>

datatype 'a arrival = Never | After nat 'a

record blob =
  blob_bytes :: "nat list"
  blob_type :: ustr

record fetch_response =
  res_status :: nat
  res_content_type :: "ustr option"
  res_text :: ustr
  res_body_arrives :: bool
  res_blob :: "ustr + blob"
  res_json :: "json option"

definition resOk :: "fetch_response \<Rightarrow> bool" where
  "resOk r \<longleftrightarrow> 200 \<le> res_status r \<and> res_status r \<le> 299"

datatype fetch_outcome = Rejected ustr | Responded fetch_response

datatype settled = Aborted | Settled fetch_outcome

definition withTimeout :: "nat \<Rightarrow> fetch_outcome arrival \<Rightarrow> settled" where
  "withTimeout ms a =
     (case a of Never \<Rightarrow> Aborted | After t r \<Rightarrow> if t < ms then Settled r else Aborted)"

record plantnet_form =
  form_endpoint :: ustr
  form_api_key :: ustr
  form_options :: ustr
  form_image :: blob
  form_filename :: ustr
  form_organs :: ustr

datatype db_call =
    PlantsUpsertFirst | PlantsUpsertSecond | SightingsInsert | TreesInsert
  | TreeEntriesSelect | TreeEntriesInsert | TreeEntriesUpsert

record env =
  env_plantnet_key :: "ustr option"
  env_supabase_configured :: bool
  env_image_fetch :: "ustr \<Rightarrow> fetch_outcome arrival"
  env_plantnet_fetch :: "plantnet_form \<Rightarrow> fetch_outcome arrival"
  env_js_now :: ustr
  env_db_now :: int
  env_db_error :: "db_call \<Rightarrow> json option"

record http_request =
  req_method :: ustr
  req_body :: "json option"

record http_response =
  rsp_status :: nat
  rsp_body :: json

text \<open>
  A response body is given as the object handed to \<open>JSON.stringify\<close>; a member whose value
  is \<open>undefined\<close> is absent on the wire, and \<open>getProp\<close> reads it as \<open>undefined\<close> too.
\<close>

definition errorBody :: "string \<Rightarrow> json" where
  "errorBody msg = JObj [(js ''error'', JStr (js msg))]"

definition errorDetails :: "string \<Rightarrow> json \<Rightarrow> json" where
  "errorDetails msg d = JObj [(js ''error'', JStr (js msg)), (js ''details'', d)]"

definition unexpected :: "ustr \<Rightarrow> http_response" where
  "unexpected err =
     \<lparr>rsp_status = 500, rsp_body = errorDetails ''Unexpected server error'' (JStr err)\<rparr>"

section \<open>The tables\<close>

text \<open>
  Row identifiers are natural numbers and a timestamp column is the integer the database
  clock shows. The columns of \<open>trees\<close> are those of its migration; a column holds the
  JSON value written to it, except \<open>scientific_name\<close>, which the view \<open>plant_log\<close> compares
  and orders and which is held as nullable text.
\<close>

record plant_row =
  p_id :: nat
  p_key :: ustr
  p_key_lc :: ustr
  p_common_name :: json
  p_scientific_name :: json
  p_family :: json
  p_genus :: json
  p_reference_images :: json
  p_plant_details :: json
  p_updated_at :: json

record sighting_row =
  s_id :: nat
  s_plant_id :: nat
  s_image_url :: ustr
  s_lat :: json
  s_lng :: json
  s_confidence :: json
  s_created_at :: int

record tree_row =
  t_id :: nat
  t_created_at :: int
  t_image_path :: json
  t_image_url :: json
  t_lat :: json
  t_lng :: json
  t_identified_name :: json
  t_scientific_name :: "ustr option"
  t_genus :: json
  t_family :: json
  t_common_names :: json
  t_gbif_id :: json
  t_powo_id :: json
  t_iucn_category :: json
  t_confidence :: json
  t_features :: json

record entry_row =
  e_key :: ustr
  e_display_name :: "ustr option"
  e_notes :: "ustr option"
  e_created_at :: int
  e_updated_at :: json

record db =
  plants :: "plant_row list"
  sightings :: "sighting_row list"
  trees :: "tree_row list"
  tree_entries :: "entry_row list"

definition freshId :: "nat list \<Rightarrow> nat" where
  "freshId ids = Suc (fold max ids 0)"

section \<open>The identify handler of \<open>supabase/functions/identify-tree/index.ts\<close>\<close>

subsection \<open>Request validation\<close>

definition normalizeImageUrl :: "ustr \<Rightarrow> ustr" where
  "normalizeImageUrl u =
     replaceFirst (js ''http://localhost:54321'') (js ''http://host.docker.internal:54321'')
       (replaceFirst (js ''http://127.0.0.1:54321'') (js ''http://host.docker.internal:54321'') u)"

definition validOrgans :: "ustr list" where
  "validOrgans = [js ''leaf'', js ''flower'', js ''fruit'', js ''bark'', js ''auto'']"

text \<open>\<open>validOrgans.includes(organ)\<close>: only a string can equal a member.\<close>

fun organIsValid :: "json \<Rightarrow> bool" where
  "organIsValid (JStr s) = (s \<in> set validOrgans)"
| "organIsValid v = False"

definition invalidOrgan :: http_response where
  "invalidOrgan =
     \<lparr>rsp_status = 400,
      rsp_body = JObj [(js ''error'',
        JStr (js ''Invalid organ type. Must be one of: '' @ joinWith (js '', '') validOrgans))]\<rparr>"

definition numberOrNull :: "json \<Rightarrow> json" where
  "numberOrNull v = (if isNumber v then v else JNull)"

subsection \<open>Extracting the best match\<close>

definition bestOf :: "json \<Rightarrow> json" where
  "bestOf raw = index0 (getProp raw ''results'')"

definition speciesOf :: "json \<Rightarrow> json" where
  "speciesOf best = getProp best ''species''"

definition commonNameOf :: "json \<Rightarrow> json" where
  "commonNameOf best =
     orElse (orElse (orElse (index0 (getProp (speciesOf best) ''commonNames''))
                            (getProp (speciesOf best) ''scientificNameWithoutAuthor''))
                    (getProp (speciesOf best) ''scientificName''))
            (JStr (js ''Unknown''))"

definition scientificNameOf :: "json \<Rightarrow> json" where
  "scientificNameOf best =
     orElse (orElse (getProp (speciesOf best) ''scientificName'')
                    (getProp (speciesOf best) ''scientificNameWithoutAuthor''))
            JNull"

definition familyOf :: "json \<Rightarrow> json" where
  "familyOf best =
     orElse (getProp (getProp (speciesOf best) ''family'') ''scientificNameWithoutAuthor'') JNull"

definition genusOf :: "json \<Rightarrow> json" where
  "genusOf best =
     orElse (getProp (getProp (speciesOf best) ''genus'') ''scientificNameWithoutAuthor'') JNull"

definition commonNamesOf :: "json \<Rightarrow> json" where
  "commonNamesOf best =
     (if isArray (getProp (speciesOf best) ''commonNames'')
      then getProp (speciesOf best) ''commonNames'' else JArr [])"

definition stringOrNull :: "platform \<Rightarrow> json \<Rightarrow> json" where
  "stringOrNull P v = (if truthy v then JStr (toStringJS P v) else JNull)"

definition gbifIdOf :: "platform \<Rightarrow> json \<Rightarrow> json" where
  "gbifIdOf P best = stringOrNull P (getProp (getProp best ''gbif'') ''id'')"

definition powoIdOf :: "platform \<Rightarrow> json \<Rightarrow> json" where
  "powoIdOf P best = stringOrNull P (getProp (getProp best ''powo'') ''id'')"

definition iucnCategoryOf :: "platform \<Rightarrow> json \<Rightarrow> json" where
  "iucnCategoryOf P best = stringOrNull P (getProp (getProp best ''iucn'') ''category'')"

definition confidenceOf :: "json \<Rightarrow> json" where
  "confidenceOf best = numberOrNull (getProp best ''score'')"

text \<open>
  One reference image. \<open>img.organ\<close> is not guarded in the source: on \<open>null\<close> or
  \<open>undefined\<close> it throws, which is the value \<open>None\<close>.
\<close>

definition referenceImage :: "json \<Rightarrow> json option" where
  "referenceImage img =
     (if img = JUndefined \<or> img = JNull then None
      else Some (JObj
        [(js ''organ'', getProp img ''organ''),
         (js ''author'', getProp img ''author''),
         (js ''license'', getProp img ''license''),
         (js ''citation'', getProp img ''citation''),
         (js ''url'',
            orElse (orElse (orElse (getProp (getProp img ''url'') ''m'')
                                   (getProp (getProp img ''url'') ''s''))
                           (getProp (getProp img ''url'') ''o''))
                   JNull),
         (js ''urls'', nullish (getProp img ''url'') JNull)]))"

fun mapThrowing :: "('a \<Rightarrow> 'b option) \<Rightarrow> 'a list \<Rightarrow> 'b list option" where
  "mapThrowing f [] = Some []"
| "mapThrowing f (x # xs) =
     (case f x of None \<Rightarrow> None
      | Some y \<Rightarrow> (case mapThrowing f xs of None \<Rightarrow> None | Some ys \<Rightarrow> Some (y # ys)))"

text \<open>
  \<open>(best?.images ?? []).map(...)\<close>: only an array has \<open>map\<close>; on any other value that is
  neither \<open>null\<close> nor \<open>undefined\<close> the call throws.
\<close>

definition referenceImagesOf :: "json \<Rightarrow> json option" where
  "referenceImagesOf best =
     (case nullish (getProp best ''images'') (JArr []) of
        JArr imgs \<Rightarrow> map_option JArr (mapThrowing referenceImage imgs)
      | _ \<Rightarrow> None)"

definition rawKeyOf :: "json \<Rightarrow> json" where
  "rawKeyOf best =
     orElse (orElse (orElse (getProp (speciesOf best) ''scientificNameWithoutAuthor'')
                            (getProp (speciesOf best) ''scientificName''))
                    (commonNameOf best))
            (JStr (js ''unknown''))"

definition plantKeyOf :: "platform \<Rightarrow> json \<Rightarrow> ustr" where
  "plantKeyOf P best = slugifyKey P (toStringJS P (rawKeyOf best))"

subsection \<open>Writing \<open>plants\<close> and \<open>sightings\<close>\<close>

record plant_payload =
  pl_key :: ustr
  pl_key_lc :: ustr
  pl_common_name :: json
  pl_scientific_name :: json
  pl_family :: json
  pl_genus :: json
  pl_reference_images :: json
  pl_plant_details :: json
  pl_updated_at :: json

text \<open>
  A member of the payload whose value is \<open>undefined\<close> is not sent: on conflict the column
  keeps its value, in a new row it is \<open>NULL\<close>.
\<close>

definition setCol :: "json \<Rightarrow> json \<Rightarrow> json" where
  "setCol new old = (if new = JUndefined then old else new)"

definition mergePlant :: "plant_payload \<Rightarrow> plant_row \<Rightarrow> plant_row" where
  "mergePlant pl r =
     r\<lparr>p_key := pl_key pl,
       p_key_lc := pl_key_lc pl,
       p_common_name := setCol (pl_common_name pl) (p_common_name r),
       p_scientific_name := setCol (pl_scientific_name pl) (p_scientific_name r),
       p_family := setCol (pl_family pl) (p_family r),
       p_genus := setCol (pl_genus pl) (p_genus r),
       p_reference_images := setCol (pl_reference_images pl) (p_reference_images r),
       p_plant_details := setCol (pl_plant_details pl) (p_plant_details r),
       p_updated_at := setCol (pl_updated_at pl) (p_updated_at r)\<rparr>"

definition newPlant :: "nat \<Rightarrow> plant_payload \<Rightarrow> plant_row" where
  "newPlant i pl =
     \<lparr>p_id = i,
      p_key = pl_key pl,
      p_key_lc = pl_key_lc pl,
      p_common_name = setCol (pl_common_name pl) JNull,
      p_scientific_name = setCol (pl_scientific_name pl) JNull,
      p_family = setCol (pl_family pl) JNull,
      p_genus = setCol (pl_genus pl) JNull,
      p_reference_images = setCol (pl_reference_images pl) JNull,
      p_plant_details = setCol (pl_plant_details pl) JNull,
      p_updated_at = setCol (pl_updated_at pl) JNull\<rparr>"

text \<open>
  Modelled from the spec: the table \<open>plants\<close>, whose migration is not among the sources, has
  \<open>key\<close> unique and is written by an upsert on conflict by \<open>key\<close>: the row that has the key
  of the payload takes the payload's columns, and when there is none a row with a new
  identifier is added. The result is the table and the identifier of the written row, which
  is what \<open>.select("id").single()\<close> returns.
\<close>

definition upsertPlants :: "plant_payload \<Rightarrow> plant_row list \<Rightarrow> plant_row list \<times> nat" where
  "upsertPlants pl rows =
     (case find (\<lambda>r. p_key r = pl_key pl) rows of
        Some r0 \<Rightarrow> (map (\<lambda>r. if p_key r = pl_key pl then mergePlant pl r else r) rows, p_id r0)
      | None \<Rightarrow> (rows @ [newPlant (freshId (map p_id rows)) pl], freshId (map p_id rows)))"

definition firstPayload :: "platform \<Rightarrow> json \<Rightarrow> json \<Rightarrow> plant_payload" where
  "firstPayload P best refs =
     \<lparr>pl_key = plantKeyOf P best,
      pl_key_lc = plantKeyLcOf P (plantKeyOf P best),
      pl_common_name = commonNameOf best,
      pl_scientific_name = scientificNameOf best,
      pl_family = familyOf best,
      pl_genus = genusOf best,
      pl_reference_images = refs,
      pl_plant_details = best,
      pl_updated_at = JUndefined\<rparr>"

definition secondPayload :: "platform \<Rightarrow> env \<Rightarrow> json \<Rightarrow> json \<Rightarrow> plant_payload" where
  "secondPayload P E best refs =
     \<lparr>pl_key = plantKeyOf P best,
      pl_key_lc = toLowerCase P (plantKeyOf P best),
      pl_common_name = commonNameOf best,
      pl_scientific_name = scientificNameOf best,
      pl_family = familyOf best,
      pl_genus = genusOf best,
      pl_reference_images = refs,
      pl_plant_details = best,
      pl_updated_at = JStr (env_js_now E)\<rparr>"

definition newSighting :: "env \<Rightarrow> nat \<Rightarrow> nat \<Rightarrow> ustr \<Rightarrow> json \<Rightarrow> json \<Rightarrow> json \<Rightarrow> sighting_row" where
  "newSighting E i plantId imageUrl lat lng confidence =
     \<lparr>s_id = i, s_plant_id = plantId, s_image_url = imageUrl, s_lat = lat, s_lng = lng,
      s_confidence = confidence, s_created_at = env_db_now E\<rparr>"

definition successBody :: "platform \<Rightarrow> sighting_row \<Rightarrow> json \<Rightarrow> json \<Rightarrow> json" where
  "successBody P row best refs = JObj
     [(js ''key'', JStr (plantKeyOf P best)),
      (js ''id'', JNum (of_nat (s_id row))),
      (js ''created_at'', JNum (of_int (s_created_at row))),
      (js ''name'', commonNameOf best),
      (js ''commonName'', commonNameOf best),
      (js ''scientificName'', scientificNameOf best),
      (js ''genus'', genusOf best),
      (js ''family'', familyOf best),
      (js ''commonNames'', commonNamesOf best),
      (js ''gbifId'', gbifIdOf P best),
      (js ''powoId'', powoIdOf P best),
      (js ''iucnCategory'', iucnCategoryOf P best),
      (js ''confidence'', confidenceOf best),
      (js ''features'', JArr []),
      (js ''referenceImages'', refs),
      (js ''rawTop'', best)]"

text \<open>
  The three database calls of a request. A call the database answers with an error leaves
  the table as it was. The result of the first upsert is not looked at.
\<close>

definition firstUpsert :: "platform \<Rightarrow> env \<Rightarrow> db \<Rightarrow> json \<Rightarrow> json \<Rightarrow> db" where
  "firstUpsert P E d best refs =
     (case env_db_error E PlantsUpsertFirst of
        Some e \<Rightarrow> d
      | None \<Rightarrow> d\<lparr>plants := fst (upsertPlants (firstPayload P best refs) (plants d))\<rparr>)"

definition insertSighting ::
  "platform \<Rightarrow> env \<Rightarrow> db \<Rightarrow> nat \<Rightarrow> ustr \<Rightarrow> json \<Rightarrow> json \<Rightarrow> json \<Rightarrow> json \<Rightarrow> db \<times> http_response" where
  "insertSighting P E d plantId imageUrl lat lng best refs =
     (case env_db_error E SightingsInsert of
        Some error \<Rightarrow>
          (d, \<lparr>rsp_status = 500, rsp_body = errorDetails ''Sighting insert failed'' error\<rparr>)
      | None \<Rightarrow>
          (d\<lparr>sightings := sightings d @
               [newSighting E (freshId (map s_id (sightings d))) plantId imageUrl lat lng
                  (confidenceOf best)]\<rparr>,
           \<lparr>rsp_status = 200,
            rsp_body = successBody P
               (newSighting E (freshId (map s_id (sightings d))) plantId imageUrl lat lng
                  (confidenceOf best)) best refs\<rparr>))"

definition persist ::
  "platform \<Rightarrow> env \<Rightarrow> db \<Rightarrow> ustr \<Rightarrow> json \<Rightarrow> json \<Rightarrow> json \<Rightarrow> json \<Rightarrow> db \<times> http_response" where
  "persist P E d imageUrl lat lng best refs =
     (case env_db_error E PlantsUpsertSecond of
        Some plantError \<Rightarrow>
          (firstUpsert P E d best refs,
           \<lparr>rsp_status = 500, rsp_body = errorDetails ''Plant upsert failed'' plantError\<rparr>)
      | None \<Rightarrow>
          insertSighting P E
            ((firstUpsert P E d best refs)
               \<lparr>plants := fst (upsertPlants (secondPayload P E best refs)
                                 (plants (firstUpsert P E d best refs)))\<rparr>)
            (snd (upsertPlants (secondPayload P E best refs)
                    (plants (firstUpsert P E d best refs))))
            imageUrl lat lng best refs)"

subsection \<open>The handler\<close>

text \<open>
  The text of a \<open>TypeError\<close> is the engine's; the model keeps the name of the error.
\<close>

definition afterPlantNet ::
  "platform \<Rightarrow> env \<Rightarrow> db \<Rightarrow> ustr \<Rightarrow> json \<Rightarrow> json \<Rightarrow> json \<Rightarrow> db \<times> http_response" where
  "afterPlantNet P E d imageUrl lat lng raw =
     (case referenceImagesOf (bestOf raw) of
        None \<Rightarrow> (d, unexpected (js ''TypeError''))
      | Some refs \<Rightarrow> persist P E d imageUrl lat lng (bestOf raw) refs)"

definition contentTypeOf :: "fetch_response \<Rightarrow> blob \<Rightarrow> ustr" where
  "contentTypeOf r b =
     (case res_content_type r of
        Some h \<Rightarrow> if h \<noteq> [] then h else if blob_type b \<noteq> [] then blob_type b else js ''image/jpeg''
      | None \<Rightarrow> if blob_type b \<noteq> [] then blob_type b else js ''image/jpeg'')"

definition extensionOf :: "ustr \<Rightarrow> ustr" where
  "extensionOf contentType =
     (if includesStr contentType (js ''png'') then js ''png''
      else if includesStr contentType (js ''webp'') then js ''webp''
      else js ''jpg'')"

definition plantNetFailed :: "fetch_response \<Rightarrow> json \<Rightarrow> http_response" where
  "plantNetFailed idRes raw =
     \<lparr>rsp_status = 502,
      rsp_body = JObj [(js ''error'', JStr (js ''PlantNet request failed'')),
                       (js ''status'', JNum (of_nat (res_status idRes))),
                       (js ''details'', raw)]\<rparr>"

text \<open>\<open>await idRes.json().catch(() => ({}))\<close>\<close>

definition rawOf :: "fetch_response \<Rightarrow> json" where
  "rawOf idRes = (case res_json idRes of None \<Rightarrow> JObj [] | Some j \<Rightarrow> j)"

text \<open>
  The request sent to PlantNet: the endpoint, the key and the further query parameters of
  \<open>plantNetUrl\<close>, and the two parts of the form.
\<close>

definition plantNetForm :: "platform \<Rightarrow> ustr \<Rightarrow> fetch_response \<Rightarrow> blob \<Rightarrow> json \<Rightarrow> plantnet_form" where
  "plantNetForm P apiKey imgRes imgBlob organ =
     \<lparr>form_endpoint = js ''https://my-api.plantnet.org/v2/identify/k-world-flora'',
      form_api_key = apiKey,
      form_options = js ''&include-related-images=true&nb-results=3&lang=en'',
      form_image = imgBlob,
      form_filename = js ''tree.'' @ extensionOf (contentTypeOf imgRes imgBlob),
      form_organs = toStringJS P organ\<rparr>"

definition callPlantNet ::
  "platform \<Rightarrow> env \<Rightarrow> db \<Rightarrow> ustr \<Rightarrow> ustr \<Rightarrow> json \<Rightarrow> json \<Rightarrow> json \<Rightarrow> fetch_response \<Rightarrow> blob
     \<Rightarrow> db \<times> http_response" where
  "callPlantNet P E d apiKey imageUrl lat lng organ imgRes imgBlob =
     (case withTimeout 30000 (env_plantnet_fetch E (plantNetForm P apiKey imgRes imgBlob organ)) of
        Aborted \<Rightarrow>
          (d, \<lparr>rsp_status = 408, rsp_body = errorBody ''PlantNet API timeout after 30 seconds''\<rparr>)
      | Settled (Rejected err) \<Rightarrow> (d, unexpected err)
      | Settled (Responded idRes) \<Rightarrow>
          if \<not> resOk idRes then (d, plantNetFailed idRes (rawOf idRes))
          else afterPlantNet P E d imageUrl lat lng (rawOf idRes))"

definition tryBlock ::
  "platform \<Rightarrow> env \<Rightarrow> db \<Rightarrow> ustr \<Rightarrow> ustr \<Rightarrow> json \<Rightarrow> json \<Rightarrow> json \<Rightarrow> db \<times> http_response" where
  "tryBlock P E d apiKey imageUrl lat lng organ =
     (case withTimeout 15000 (env_image_fetch E (normalizeImageUrl imageUrl)) of
        Aborted \<Rightarrow>
          (d, \<lparr>rsp_status = 408, rsp_body = errorBody ''Image fetch timeout after 15 seconds''\<rparr>)
      | Settled (Rejected err) \<Rightarrow> (d, unexpected err)
      | Settled (Responded imgRes) \<Rightarrow>
          if \<not> resOk imgRes
          then (d, \<lparr>rsp_status = 400,
                    rsp_body = JObj [(js ''error'',
                      JStr (js ''Could not fetch imageUrl (HTTP '' @ showNat (res_status imgRes)
                            @ js '')''))]\<rparr>)
          else (case res_blob imgRes of
                  Inl err \<Rightarrow> (d, unexpected err)
                | Inr imgBlob \<Rightarrow> callPlantNet P E d apiKey imageUrl lat lng organ imgRes imgBlob))"

definition missingImageUrl :: http_response where
  "missingImageUrl = \<lparr>rsp_status = 400, rsp_body = errorBody ''Missing required field: imageUrl''\<rparr>"

definition missingPlantNetKey :: http_response where
  "missingPlantNetKey =
     \<lparr>rsp_status = 500, rsp_body = errorBody ''Server misconfigured: missing PLANTNET_KEY''\<rparr>"

definition checkOrgan ::
  "platform \<Rightarrow> env \<Rightarrow> db \<Rightarrow> ustr \<Rightarrow> ustr \<Rightarrow> json \<Rightarrow> db \<times> http_response" where
  "checkOrgan P E d apiKey imageUrl body =
     (let organ = orElse (getProp body ''organ'') (JStr (js ''leaf''))
      in if \<not> organIsValid organ then (d, invalidOrgan)
         else tryBlock P E d apiKey imageUrl (numberOrNull (getProp body ''lat''))
                (numberOrNull (getProp body ''lng'')) organ)"

definition identify :: "platform \<Rightarrow> env \<Rightarrow> db \<Rightarrow> http_request \<Rightarrow> db \<times> http_response" where
  "identify P E d req =
     (if req_method req = js ''OPTIONS'' then (d, \<lparr>rsp_status = 204, rsp_body = JNull\<rparr>)
      else if req_method req \<noteq> js ''POST''
      then (d, \<lparr>rsp_status = 405, rsp_body = errorBody ''Method not allowed''\<rparr>)
      else case req_body req of
        None \<Rightarrow> (d, \<lparr>rsp_status = 400, rsp_body = errorBody ''Invalid JSON body''\<rparr>)
      | Some body \<Rightarrow>
          (case getProp body ''imageUrl'' of
             JStr imageUrl \<Rightarrow>
               if imageUrl = [] then (d, missingImageUrl)
               else (case env_plantnet_key E of
                       None \<Rightarrow> (d, missingPlantNetKey)
                     | Some apiKey \<Rightarrow>
                         if apiKey = [] then (d, missingPlantNetKey)
                         else checkOrgan P E d apiKey imageUrl body)
           | _ \<Rightarrow> (d, missingImageUrl)))"

section \<open>The earlier handlers, which write \<open>trees\<close>\<close>

text \<open>
  Two earlier versions of the handler insert one row of \<open>trees\<close> per identification: one
  stores the taxonomy of the best match, the other its name only. They share their text
  up to the extraction. A third early version has no database client and writes nothing.
\<close>

definition missingSupabaseEnv :: http_response where
  "missingSupabaseEnv =
     \<lparr>rsp_status = 500, rsp_body = errorBody ''Server misconfigured: missing Supabase env''\<rparr>"

text \<open>
  \<open>normalizedImageUrl.replace(...)\<close> stands before the check of \<open>imageUrl\<close> and outside
  \<open>try\<close>: on anything but a string it throws, and the server answers for the handler.
\<close>

definition internalServerError :: http_response where
  "internalServerError = \<lparr>rsp_status = 500, rsp_body = JStr (js ''Internal Server Error'')\<rparr>"

definition legacyForm ::
  "platform \<Rightarrow> ustr \<Rightarrow> ustr \<Rightarrow> fetch_response \<Rightarrow> blob \<Rightarrow> json \<Rightarrow> plantnet_form" where
  "legacyForm P options apiKey imgRes imgBlob organ =
     \<lparr>form_endpoint = js ''https://my-api.plantnet.org/v2/identify/k-world-flora'',
      form_api_key = apiKey,
      form_options = options,
      form_image = imgBlob,
      form_filename = js ''tree.'' @ extensionOf (contentTypeOf imgRes imgBlob),
      form_organs = toStringJS P organ\<rparr>"

definition legacyTry ::
  "platform \<Rightarrow> env \<Rightarrow> db \<Rightarrow> ustr \<Rightarrow> ustr \<Rightarrow> ustr \<Rightarrow> json \<Rightarrow> (json \<Rightarrow> db \<times> http_response)
     \<Rightarrow> db \<times> http_response" where
  "legacyTry P E d options apiKey imageUrl organ store =
     (case withTimeout 15000 (env_image_fetch E (normalizeImageUrl imageUrl)) of
        Aborted \<Rightarrow>
          (d, \<lparr>rsp_status = 408, rsp_body = errorBody ''Image fetch timeout after 15 seconds''\<rparr>)
      | Settled (Rejected err) \<Rightarrow> (d, unexpected err)
      | Settled (Responded imgRes) \<Rightarrow>
          if \<not> resOk imgRes
          then (d, \<lparr>rsp_status = 400,
                    rsp_body = JObj [(js ''error'',
                      JStr (js ''Could not fetch imageUrl (HTTP '' @ showNat (res_status imgRes)
                            @ js '')''))]\<rparr>)
          else (case res_blob imgRes of
                  Inl err \<Rightarrow>
                    (d, \<lparr>rsp_status = 400,
                         rsp_body = errorBody ''Failed to read image data from URL''\<rparr>)
                | Inr imgBlob \<Rightarrow>
                    (case withTimeout 30000
                            (env_plantnet_fetch E (legacyForm P options apiKey imgRes imgBlob organ)) of
                       Aborted \<Rightarrow>
                         (d, \<lparr>rsp_status = 408,
                              rsp_body = errorBody ''PlantNet API timeout after 30 seconds''\<rparr>)
                     | Settled (Rejected err) \<Rightarrow> (d, unexpected err)
                     | Settled (Responded idRes) \<Rightarrow>
                         if \<not> resOk idRes then (d, plantNetFailed idRes (rawOf idRes))
                         else store (rawOf idRes))))"

definition legacyHandler ::
  "platform \<Rightarrow> env \<Rightarrow> db \<Rightarrow> http_request \<Rightarrow> ustr
     \<Rightarrow> (ustr \<Rightarrow> json \<Rightarrow> json \<Rightarrow> json \<Rightarrow> db \<times> http_response) \<Rightarrow> db \<times> http_response" where
  "legacyHandler P E d req options store =
     (if req_method req = js ''OPTIONS'' then (d, \<lparr>rsp_status = 204, rsp_body = JNull\<rparr>)
      else if req_method req \<noteq> js ''POST''
      then (d, \<lparr>rsp_status = 405, rsp_body = errorBody ''Method not allowed''\<rparr>)
      else case req_body req of
        None \<Rightarrow> (d, \<lparr>rsp_status = 400, rsp_body = errorBody ''Invalid JSON body''\<rparr>)
      | Some body \<Rightarrow>
          (case getProp body ''imageUrl'' of
             JStr imageUrl \<Rightarrow>
               if imageUrl = [] then (d, missingImageUrl)
               else (case env_plantnet_key E of
                       None \<Rightarrow> (d, missingPlantNetKey)
                     | Some apiKey \<Rightarrow>
                         if apiKey = [] then (d, missingPlantNetKey)
                         else if \<not> env_supabase_configured E then (d, missingSupabaseEnv)
                         else if \<not> organIsValid (orElse (getProp body ''organ'') (JStr (js ''leaf'')))
                         then (d, invalidOrgan)
                         else legacyTry P E d options apiKey imageUrl
                                (orElse (getProp body ''organ'') (JStr (js ''leaf'')))
                                (store imageUrl (numberOrNull (getProp body ''lat''))
                                   (numberOrNull (getProp body ''lng''))))
           | _ \<Rightarrow> (d, internalServerError)))"

text \<open>The value a text column takes from a JSON value.\<close>

definition textCol :: "platform \<Rightarrow> json \<Rightarrow> ustr option" where
  "textCol P v =
     (case v of JUndefined \<Rightarrow> None | JNull \<Rightarrow> None | JStr s \<Rightarrow> Some s | _ \<Rightarrow> dbText P v)"

text \<open>
  \<open>.from("trees").insert(...)\<close>: the row gets a new identifier and the time of the database
  as \<open>created_at\<close>; a column the payload does not name is \<open>NULL\<close>.
\<close>

definition insertTree :: "env \<Rightarrow> db \<Rightarrow> tree_row \<Rightarrow> db" where
  "insertTree E d payload =
     d\<lparr>trees := trees d @
         [payload\<lparr>t_id := freshId (map t_id (trees d)), t_created_at := env_db_now E\<rparr>]\<rparr>"

definition insertFailed :: "json \<Rightarrow> http_response" where
  "insertFailed error = \<lparr>rsp_status = 500, rsp_body = errorDetails ''DB insert failed'' error\<rparr>"

subsection \<open>The version that stores the taxonomy\<close>

definition legacyCommonNameOf :: "json \<Rightarrow> json" where
  "legacyCommonNameOf best =
     nullish (nullish (nullish (index0 (getProp (speciesOf best) ''commonNames''))
                               (getProp (speciesOf best) ''scientificNameWithoutAuthor''))
                      (getProp (speciesOf best) ''scientificName''))
             (JStr (js ''Unknown''))"

definition legacyScientificNameOf :: "json \<Rightarrow> json" where
  "legacyScientificNameOf best =
     nullish (nullish (getProp (speciesOf best) ''scientificNameWithoutAuthor'')
                      (getProp (speciesOf best) ''scientificName''))
             JNull"

definition legacyGenusOf :: "json \<Rightarrow> json" where
  "legacyGenusOf best =
     nullish (getProp (getProp (speciesOf best) ''genus'') ''scientificNameWithoutAuthor'') JNull"

definition legacyFamilyOf :: "json \<Rightarrow> json" where
  "legacyFamilyOf best =
     nullish (getProp (getProp (speciesOf best) ''family'') ''scientificNameWithoutAuthor'') JNull"

definition legacyReferenceImage :: "json \<Rightarrow> json" where
  "legacyReferenceImage img = JObj
     [(js ''url'',
         nullish (nullish (getProp (getProp img ''url'') ''m'') (getProp (getProp img ''url'') ''o''))
                 (getProp (getProp img ''url'') ''s'')),
      (js ''urlSmall'', nullish (getProp (getProp img ''url'') ''s'') JNull),
      (js ''urlOriginal'', nullish (getProp (getProp img ''url'') ''o'') JNull),
      (js ''organ'', nullish (getProp img ''organ'') JNull),
      (js ''author'', nullish (getProp img ''author'') JNull),
      (js ''license'', nullish (getProp img ''license'') JNull),
      (js ''citation'', nullish (getProp img ''citation'') JNull)]"

definition legacyReferenceImagesOf :: "json \<Rightarrow> json" where
  "legacyReferenceImagesOf best =
     (case getProp best ''images'' of
        JArr imgs \<Rightarrow>
          JArr (filter (\<lambda>x. truthy (getProp x ''url'')) (map legacyReferenceImage (take 6 imgs)))
      | _ \<Rightarrow> JArr [])"

definition taxonomyRow :: "platform \<Rightarrow> ustr \<Rightarrow> json \<Rightarrow> json \<Rightarrow> json \<Rightarrow> tree_row" where
  "taxonomyRow P imageUrl lat lng best =
     \<lparr>t_id = 0, t_created_at = 0,
      t_image_path = JStr imageUrl,
      t_image_url = JStr imageUrl,
      t_lat = lat,
      t_lng = lng,
      t_identified_name = legacyCommonNameOf best,
      t_scientific_name = textCol P (legacyScientificNameOf best),
      t_genus = legacyGenusOf best,
      t_family = legacyFamilyOf best,
      t_common_names = commonNamesOf best,
      t_gbif_id = gbifIdOf P best,
      t_powo_id = powoIdOf P best,
      t_iucn_category = iucnCategoryOf P best,
      t_confidence = confidenceOf best,
      t_features = JArr []\<rparr>"

definition taxonomyBody :: "platform \<Rightarrow> tree_row \<Rightarrow> json \<Rightarrow> json" where
  "taxonomyBody P row best = JObj
     [(js ''id'', JNum (of_nat (t_id row))),
      (js ''created_at'', JNum (of_int (t_created_at row))),
      (js ''name'', legacyCommonNameOf best),
      (js ''commonName'', legacyCommonNameOf best),
      (js ''scientificName'', legacyScientificNameOf best),
      (js ''genus'', legacyGenusOf best),
      (js ''family'', legacyFamilyOf best),
      (js ''commonNames'', commonNamesOf best),
      (js ''gbifId'', gbifIdOf P best),
      (js ''powoId'', powoIdOf P best),
      (js ''iucnCategory'', iucnCategoryOf P best),
      (js ''confidence'', confidenceOf best),
      (js ''features'', JArr []),
      (js ''referenceImages'', legacyReferenceImagesOf best),
      (js ''rawTop'', best)]"

definition storeTaxonomy ::
  "platform \<Rightarrow> env \<Rightarrow> db \<Rightarrow> ustr \<Rightarrow> json \<Rightarrow> json \<Rightarrow> json \<Rightarrow> db \<times> http_response" where
  "storeTaxonomy P E d imageUrl lat lng raw =
     (case env_db_error E TreesInsert of
        Some error \<Rightarrow> (d, insertFailed error)
      | None \<Rightarrow>
          (insertTree E d (taxonomyRow P imageUrl lat lng (bestOf raw)),
           \<lparr>rsp_status = 200,
            rsp_body = taxonomyBody P
               (last (trees (insertTree E d (taxonomyRow P imageUrl lat lng (bestOf raw)))))
               (bestOf raw)\<rparr>))"

definition identifyTaxonomy :: "platform \<Rightarrow> env \<Rightarrow> db \<Rightarrow> http_request \<Rightarrow> db \<times> http_response" where
  "identifyTaxonomy P E d req =
     legacyHandler P E d req (js ''&include-related-images=true&nb-results=3&lang=en'')
       (storeTaxonomy P E d)"

subsection \<open>The version that stores the name\<close>

definition nameRow :: "ustr \<Rightarrow> json \<Rightarrow> json \<Rightarrow> json \<Rightarrow> tree_row" where
  "nameRow imageUrl lat lng best =
     \<lparr>t_id = 0, t_created_at = 0,
      t_image_path = JStr imageUrl,
      t_image_url = JStr imageUrl,
      t_lat = lat,
      t_lng = lng,
      t_identified_name = commonNameOf best,
      t_scientific_name = None,
      t_genus = JNull,
      t_family = JNull,
      t_common_names = JNull,
      t_gbif_id = JNull,
      t_powo_id = JNull,
      t_iucn_category = JNull,
      t_confidence = confidenceOf best,
      t_features = JArr []\<rparr>"

definition nameBody :: "tree_row \<Rightarrow> json \<Rightarrow> json" where
  "nameBody row best = JObj
     [(js ''id'', JNum (of_nat (t_id row))),
      (js ''created_at'', JNum (of_int (t_created_at row))),
      (js ''name'', commonNameOf best),
      (js ''confidence'', confidenceOf best),
      (js ''features'', JArr []),
      (js ''rawTop'', best)]"

definition storeName ::
  "env \<Rightarrow> db \<Rightarrow> ustr \<Rightarrow> json \<Rightarrow> json \<Rightarrow> json \<Rightarrow> db \<times> http_response" where
  "storeName E d imageUrl lat lng raw =
     (case env_db_error E TreesInsert of
        Some error \<Rightarrow> (d, insertFailed error)
      | None \<Rightarrow>
          (insertTree E d (nameRow imageUrl lat lng (bestOf raw)),
           \<lparr>rsp_status = 200,
            rsp_body = nameBody (last (trees (insertTree E d (nameRow imageUrl lat lng (bestOf raw)))))
                         (bestOf raw)\<rparr>))"

definition identifyName :: "platform \<Rightarrow> env \<Rightarrow> db \<Rightarrow> http_request \<Rightarrow> db \<times> http_response" where
  "identifyName P E d req = legacyHandler P E d req [] (storeName E d)"

section \<open>The log pages\<close>

text \<open>
  \<open>.from("trees").select(...).order("created_at", { ascending: false }).limit(n)\<close>, with
  \<open>n\<close> 25 in one version of the page and 50 in the other: a page only reads.
\<close>

definition logPage :: "nat \<Rightarrow> db \<Rightarrow> tree_row list" where
  "logPage n d = take n (rev (sort_key t_created_at (trees d)))"

section \<open>The plant detail page\<close>

text \<open>
  The page reads the row of \<open>plant_log\<close> for the key; the view it queries (with the columns
  \<open>key\<close>, \<open>name\<close>, \<open>sightings_count\<close>, \<open>last_seen\<close>, \<open>thumbnail_url\<close>) is not among the
  sources, so the answer to that query is part of the environment of the page, as are the
  errors of its database calls and the moments at which the effect was cancelled while a call
  was awaited.
\<close>

record log_row =
  lg_key :: ustr
  lg_name :: "ustr option"
  lg_sightings_count :: nat
  lg_last_seen :: "ustr option"
  lg_thumbnail_url :: "ustr option"

record page_env =
  pv_log :: "ustr + log_row option"
  pv_error :: "db_call \<Rightarrow> ustr option"
  pv_cancelled_after_log :: bool
  pv_cancelled_after_entry :: bool
  pv_cancelled_after_create :: bool
  pv_cancelled_after_plant :: bool
  pv_db_now :: int
  pv_js_now :: ustr

record page_state =
  st_loading :: bool
  st_saving :: bool
  st_error :: "ustr option"
  st_logRow :: "log_row option"
  st_entryRow :: "entry_row option"
  st_plant :: "plant_row option"
  st_isEditing :: bool
  st_displayName :: ustr
  st_notes :: ustr
  st_original :: "ustr \<times> ustr"
  st_toast :: "ustr option"

definition initialState :: page_state where
  "initialState =
     \<lparr>st_loading = True, st_saving = False, st_error = None, st_logRow = None,
      st_entryRow = None, st_plant = None, st_isEditing = False, st_displayName = [],
      st_notes = [], st_original = ([], []), st_toast = None\<rparr>"

text \<open>\<open>.eq(column, value).maybeSingle()\<close>: no row, the row, or an error when there are several.\<close>

definition maybeSingle :: "'a list \<Rightarrow> ustr + 'a option" where
  "maybeSingle rows =
     (case rows of
        [] \<Rightarrow> Inr None
      | [r] \<Rightarrow> Inr (Some r)
      | _ \<Rightarrow> Inl (js ''JSON object requested, multiple (or no) rows returned''))"

definition selectEntry :: "page_env \<Rightarrow> db \<Rightarrow> ustr \<Rightarrow> ustr + entry_row option" where
  "selectEntry V d plantKey =
     (case pv_error V TreeEntriesSelect of
        Some m \<Rightarrow> Inl m
      | None \<Rightarrow> maybeSingle (filter (\<lambda>r. e_key r = plantKey) (tree_entries d)))"

text \<open>
  Modelled from the spec: the table \<open>tree_entries\<close>, whose migration is not among the sources,
  has \<open>key\<close> unique. An insert of a key that has a row is refused; otherwise the row is
  added, with the time of the database as \<open>created_at\<close>.
\<close>

definition insertEntry ::
  "page_env \<Rightarrow> db \<Rightarrow> ustr \<Rightarrow> ustr option \<Rightarrow> ustr option \<Rightarrow> ustr + db \<times> entry_row" where
  "insertEntry V d plantKey displayName notes =
     (case pv_error V TreeEntriesInsert of
        Some m \<Rightarrow> Inl m
      | None \<Rightarrow>
          if plantKey \<in> set (map e_key (tree_entries d))
          then Inl (js ''duplicate key value violates unique constraint'')
          else Inr (d\<lparr>tree_entries := tree_entries d @
                        [\<lparr>e_key = plantKey, e_display_name = displayName, e_notes = notes,
                          e_created_at = pv_db_now V, e_updated_at = JNull\<rparr>]\<rparr>,
                    \<lparr>e_key = plantKey, e_display_name = displayName, e_notes = notes,
                     e_created_at = pv_db_now V, e_updated_at = JNull\<rparr>))"

text \<open>
  Modelled from the spec: \<open>tree_entries\<close> is written on save by an upsert on conflict by
  \<open>key\<close>: the row that has the key takes the display name, the notes and \<open>updated_at\<close> of
  the payload, and when there is none a row is added.
\<close>

definition upsertEntry ::
  "page_env \<Rightarrow> db \<Rightarrow> ustr \<Rightarrow> ustr option \<Rightarrow> ustr option \<Rightarrow> ustr + db \<times> entry_row" where
  "upsertEntry V d plantKey displayName notes =
     (case pv_error V TreeEntriesUpsert of
        Some m \<Rightarrow> Inl m
      | None \<Rightarrow>
          (case find (\<lambda>r. e_key r = plantKey) (tree_entries d) of
             Some r0 \<Rightarrow>
               Inr (d\<lparr>tree_entries :=
                        map (\<lambda>r. if e_key r = plantKey
                                  then r\<lparr>e_display_name := displayName, e_notes := notes,
                                         e_updated_at := JStr (pv_js_now V)\<rparr>
                                  else r) (tree_entries d)\<rparr>,
                    r0\<lparr>e_display_name := displayName, e_notes := notes,
                       e_updated_at := JStr (pv_js_now V)\<rparr>)
           | None \<Rightarrow>
               Inr (d\<lparr>tree_entries := tree_entries d @
                        [\<lparr>e_key = plantKey, e_display_name = displayName, e_notes = notes,
                          e_created_at = pv_db_now V, e_updated_at = JStr (pv_js_now V)\<rparr>]\<rparr>,
                    \<lparr>e_key = plantKey, e_display_name = displayName, e_notes = notes,
                     e_created_at = pv_db_now V, e_updated_at = JStr (pv_js_now V)\<rparr>)))"

text \<open>\<open>log?.name ?? null\<close> and \<open>log?.name ?? ""\<close>.\<close>

definition logName :: "log_row option \<Rightarrow> ustr option" where
  "logName logRow = (case logRow of None \<Rightarrow> None | Some l \<Rightarrow> lg_name l)"

definition orEmpty :: "ustr option \<Rightarrow> ustr" where
  "orEmpty v = (case v of None \<Rightarrow> [] | Some s \<Rightarrow> s)"

text \<open>The end of \<open>load\<close>, from \<open>setEntryRow(resolvedEntry)\<close> on; the error of the last query is not looked at.\<close>

definition showEntry ::
  "platform \<Rightarrow> page_env \<Rightarrow> db \<Rightarrow> ustr \<Rightarrow> log_row option \<Rightarrow> entry_row \<Rightarrow> page_state \<Rightarrow> page_state" where
  "showEntry P V d plantKey logRow resolvedEntry st =
     (let dn = (case e_display_name resolvedEntry of Some s \<Rightarrow> s | None \<Rightarrow> orEmpty (logName logRow));
          nt = orEmpty (e_notes resolvedEntry);
          st3 = st\<lparr>st_entryRow := Some resolvedEntry, st_displayName := dn, st_notes := nt,
                   st_original := (dn, nt)\<rparr>
      in if pv_cancelled_after_plant V then st3
         else st3\<lparr>st_plant :=
                     (case maybeSingle (filter (\<lambda>r. p_key_lc r = toLowerCase P plantKey) (plants d)) of
                        Inr found \<Rightarrow> found
                      | Inl m \<Rightarrow> None),
                  st_loading := False\<rparr>)"

definition load ::
  "platform \<Rightarrow> page_env \<Rightarrow> db \<Rightarrow> ustr \<Rightarrow> page_state \<Rightarrow> db \<times> page_state" where
  "load P V d plantKey st0 =
     (let st1 = st0\<lparr>st_loading := True, st_error := None, st_isEditing := False\<rparr>
      in if plantKey = []
         then (d, st1\<lparr>st_error := Some (js ''Missing plant key in URL. Make sure your folder is web/app/plants/[key]/page.tsx (or update useParams accordingly).''), st_loading := False\<rparr>)
         else if pv_cancelled_after_log V then (d, st1)
         else (case pv_log V of
                 Inl m \<Rightarrow>
                   (d, st1\<lparr>st_error := Some (js ''Error loading plant_log: '' @ m),
                           st_loading := False\<rparr>)
               | Inr logRow \<Rightarrow>
                   if pv_cancelled_after_entry V then (d, st1\<lparr>st_logRow := logRow\<rparr>)
                   else (case selectEntry V d plantKey of
                           Inl m \<Rightarrow>
                             (d, st1\<lparr>st_logRow := logRow,
                                     st_error := Some (js ''Error loading tree_entries: '' @ m),
                                     st_loading := False\<rparr>)
                         | Inr (Some entry) \<Rightarrow>
                             (d, showEntry P V d plantKey logRow entry (st1\<lparr>st_logRow := logRow\<rparr>))
                         | Inr None \<Rightarrow>
                             (case insertEntry V d plantKey (logName logRow) None of
                                Inl m \<Rightarrow>
                                  if pv_cancelled_after_create V then (d, st1\<lparr>st_logRow := logRow\<rparr>)
                                  else (d, st1\<lparr>st_logRow := logRow,
                                          st_error :=
                                            Some (js ''Error creating tree_entries row: '' @ m),
                                          st_loading := False\<rparr>)
                              | Inr (d', created) \<Rightarrow>
                                  if pv_cancelled_after_create V then (d', st1\<lparr>st_logRow := logRow\<rparr>)
                                  else (d', showEntry P V d' plantKey logRow created
                                              (st1\<lparr>st_logRow := logRow\<rparr>))))))"

text \<open>\<open>s.trim() ? s.trim() : null\<close>.\<close>

definition trimmedOrNull :: "ustr \<Rightarrow> ustr option" where
  "trimmedOrNull s = (if trim s \<noteq> [] then Some (trim s) else None)"

definition save :: "page_env \<Rightarrow> db \<Rightarrow> ustr \<Rightarrow> page_state \<Rightarrow> db \<times> page_state" where
  "save V d plantKey st0 =
     (let st1 = st0\<lparr>st_saving := True, st_error := None\<rparr>
      in case upsertEntry V d plantKey (trimmedOrNull (st_displayName st0))
                (trimmedOrNull (st_notes st0)) of
           Inl m \<Rightarrow> (d, st1\<lparr>st_error := Some (js ''Save failed: '' @ m), st_saving := False\<rparr>)
         | Inr (d', updated) \<Rightarrow>
             (d', st1\<lparr>st_entryRow := Some updated,
                      st_original := (orEmpty (e_display_name updated), orEmpty (e_notes updated)),
                      st_isEditing := False, st_saving := False,
                      st_toast := Some (js ''Saved'')\<rparr>))"

section \<open>Everything that touches the database\<close>

text \<open>
  The operations of the repository on the database: a request to any of the three handlers
  that have a database client, a view of a log page, and a load or a save of the plant
  detail page.
\<close>

datatype action =
    Identify env http_request
  | IdentifyTaxonomy env http_request
  | IdentifyName env http_request
  | ViewLog nat
  | LoadPlant page_env ustr page_state
  | SavePlant page_env ustr page_state

fun step :: "platform \<Rightarrow> db \<Rightarrow> action \<Rightarrow> db" where
  "step P d (Identify E req) = fst (identify P E d req)"
| "step P d (IdentifyTaxonomy E req) = fst (identifyTaxonomy P E d req)"
| "step P d (IdentifyName E req) = fst (identifyName P E d req)"
| "step P d (ViewLog n) = d"
| "step P d (LoadPlant V plantKey st) = fst (load P V d plantKey st)"
| "step P d (SavePlant V plantKey st) = fst (save V d plantKey st)"

fun run :: "platform \<Rightarrow> db \<Rightarrow> action list \<Rightarrow> db" where
  "run P d [] = d"
| "run P d (a # as) = run P (step P d a) as"

section \<open>The view \<open>plant_log\<close>\<close>

text \<open>
  \<open>SELECT DISTINCT ON (scientific_name) ..., created_at AS last_seen FROM trees
  WHERE scientific_name IS NOT NULL ORDER BY scientific_name, created_at DESC\<close>.
  The order of text is that of the collation of the database, given by a function into a
  linear order; a collation tells different strings apart, so the function is injective.
\<close>

record plant_log_row =
  v_id :: nat
  v_scientific_name :: "ustr option"
  v_identified_name :: json
  v_genus :: json
  v_family :: json
  v_common_names :: json
  v_gbif_id :: json
  v_powo_id :: json
  v_iucn_category :: json
  v_confidence :: json
  v_image_url :: json
  v_image_path :: json
  v_lat :: json
  v_lng :: json
  v_features :: json
  v_last_seen :: int

definition selectColumns :: "tree_row \<Rightarrow> plant_log_row" where
  "selectColumns r =
     \<lparr>v_id = t_id r,
      v_scientific_name = t_scientific_name r,
      v_identified_name = t_identified_name r,
      v_genus = t_genus r,
      v_family = t_family r,
      v_common_names = t_common_names r,
      v_gbif_id = t_gbif_id r,
      v_powo_id = t_powo_id r,
      v_iucn_category = t_iucn_category r,
      v_confidence = t_confidence r,
      v_image_url = t_image_url r,
      v_image_path = t_image_path r,
      v_lat = t_lat r,
      v_lng = t_lng r,
      v_features = t_features r,
      v_last_seen = t_created_at r\<rparr>"

text \<open>\<open>WHERE scientific_name IS NOT NULL\<close>.\<close>

definition named :: "tree_row list \<Rightarrow> tree_row list" where
  "named rows = filter (\<lambda>r. t_scientific_name r \<noteq> None) rows"

text \<open>The sort key of \<open>ORDER BY scientific_name, created_at DESC\<close>.\<close>

definition orderKey :: "(ustr \<Rightarrow> 'k::linorder) \<Rightarrow> tree_row \<Rightarrow> 'k \<times> int" where
  "orderKey collate r = (collate (orEmpty (t_scientific_name r)), - t_created_at r)"

text \<open>\<open>DISTINCT ON (scientific_name)\<close>: of each run of rows with equal name the first is kept.\<close>

fun distinctOn :: "tree_row list \<Rightarrow> tree_row list" where
  "distinctOn [] = []"
| "distinctOn [r] = [r]"
| "distinctOn (a # b # rs) =
     (if t_scientific_name a = t_scientific_name b then distinctOn (a # rs)
      else a # distinctOn (b # rs))"

text \<open>
  The rows of the view, given the rows of the query in the order the database has put them.
  Among rows that agree in name and time the database is free; \<open>plant_log\<close> below takes
  them in the order of the table.
\<close>

definition plantLogFrom :: "tree_row list \<Rightarrow> plant_log_row list" where
  "plantLogFrom ordered = map selectColumns (distinctOn ordered)"

definition plant_log :: "(ustr \<Rightarrow> 'k::linorder) \<Rightarrow> tree_row list \<Rightarrow> plant_log_row list" where
  "plant_log collate rows = plantLogFrom (sort_key (orderKey collate) (named rows))"

section \<open>The handler with reads that may never settle\<close>

text \<open>
  \<open>clearTimeout(timeoutId)\<close> stands before \<open>await imgRes.blob()\<close>, and
  \<open>clearTimeout(plantNetTimeoutId)\<close> before \<open>await idRes.json()\<close>: no timer runs while a
  body is read. The check \<open>!imgRes.ok\<close> comes before the read of the image, the check
  \<open>!idRes.ok\<close> after the read of PlantNet's answer.
\<close>

definition callPlantNetAwaited ::
  "platform \<Rightarrow> env \<Rightarrow> db \<Rightarrow> ustr \<Rightarrow> ustr \<Rightarrow> json \<Rightarrow> json \<Rightarrow> json \<Rightarrow> fetch_response \<Rightarrow> blob
     \<Rightarrow> (db \<times> http_response) option" where
  "callPlantNetAwaited P E d apiKey imageUrl lat lng organ imgRes imgBlob =
     (case withTimeout 30000 (env_plantnet_fetch E (plantNetForm P apiKey imgRes imgBlob organ)) of
        Aborted \<Rightarrow>
          Some (d, \<lparr>rsp_status = 408,
                    rsp_body = errorBody ''PlantNet API timeout after 30 seconds''\<rparr>)
      | Settled (Rejected err) \<Rightarrow> Some (d, unexpected err)
      | Settled (Responded idRes) \<Rightarrow>
          if \<not> res_body_arrives idRes then None
          else if \<not> resOk idRes then Some (d, plantNetFailed idRes (rawOf idRes))
          else Some (afterPlantNet P E d imageUrl lat lng (rawOf idRes)))"

definition tryBlockAwaited ::
  "platform \<Rightarrow> env \<Rightarrow> db \<Rightarrow> ustr \<Rightarrow> ustr \<Rightarrow> json \<Rightarrow> json \<Rightarrow> json
     \<Rightarrow> (db \<times> http_response) option" where
  "tryBlockAwaited P E d apiKey imageUrl lat lng organ =
     (case withTimeout 15000 (env_image_fetch E (normalizeImageUrl imageUrl)) of
        Aborted \<Rightarrow>
          Some (d, \<lparr>rsp_status = 408,
                    rsp_body = errorBody ''Image fetch timeout after 15 seconds''\<rparr>)
      | Settled (Rejected err) \<Rightarrow> Some (d, unexpected err)
      | Settled (Responded imgRes) \<Rightarrow>
          if \<not> resOk imgRes
          then Some (d, \<lparr>rsp_status = 400,
                         rsp_body = JObj [(js ''error'',
                           JStr (js ''Could not fetch imageUrl (HTTP '' @ showNat (res_status imgRes)
                                 @ js '')''))]\<rparr>)
          else if \<not> res_body_arrives imgRes then None
          else (case res_blob imgRes of
                  Inl err \<Rightarrow> Some (d, unexpected err)
                | Inr imgBlob \<Rightarrow>
                    callPlantNetAwaited P E d apiKey imageUrl lat lng organ imgRes imgBlob))"

definition checkOrganAwaited ::
  "platform \<Rightarrow> env \<Rightarrow> db \<Rightarrow> ustr \<Rightarrow> ustr \<Rightarrow> json \<Rightarrow> (db \<times> http_response) option" where
  "checkOrganAwaited P E d apiKey imageUrl body =
     (let organ = orElse (getProp body ''organ'') (JStr (js ''leaf''))
      in if \<not> organIsValid organ then Some (d, invalidOrgan)
         else tryBlockAwaited P E d apiKey imageUrl (numberOrNull (getProp body ''lat''))
                (numberOrNull (getProp body ''lng'')) organ)"

definition identifyAwaited ::
  "platform \<Rightarrow> env \<Rightarrow> db \<Rightarrow> http_request \<Rightarrow> (db \<times> http_response) option" where
  "identifyAwaited P E d req =
     (if req_method req = js ''OPTIONS'' then Some (d, \<lparr>rsp_status = 204, rsp_body = JNull\<rparr>)
      else if req_method req \<noteq> js ''POST''
      then Some (d, \<lparr>rsp_status = 405, rsp_body = errorBody ''Method not allowed''\<rparr>)
      else case req_body req of
        None \<Rightarrow> Some (d, \<lparr>rsp_status = 400, rsp_body = errorBody ''Invalid JSON body''\<rparr>)
      | Some body \<Rightarrow>
          (case getProp body ''imageUrl'' of
             JStr imageUrl \<Rightarrow>
               if imageUrl = [] then Some (d, missingImageUrl)
               else (case env_plantnet_key E of
                       None \<Rightarrow> Some (d, missingPlantNetKey)
                     | Some apiKey \<Rightarrow>
                         if apiKey = [] then Some (d, missingPlantNetKey)
                         else checkOrganAwaited P E d apiKey imageUrl body)
           | _ \<Rightarrow> Some (d, missingImageUrl)))"

section \<open>The plant key in the words of the specification\<close>

text \<open>
  The specification describes the key as the source string lower-cased, trimmed, with
  white-space runs replaced by \<open>-\<close> and every character outside \<open>[a-z0-9-]\<close> removed. The
  definitions of this section follow these words, not the code: \<open>slugifyKey\<close> is compared with
  them. Lower-casing and white space are those of the platform.
\<close>

text \<open>The characters a key may hold.\<close>

definition specAlphabet :: ustr where
  "specAlphabet = js ''abcdefghijklmnopqrstuvwxyz0123456789-''"

text \<open>
  Trimmed: the string without the white space it starts with and without the white space it
  ends with.
\<close>

definition specTrimmed :: "ustr \<Rightarrow> ustr" where
  "specTrimmed s =
     (let t = dropWhile isWhiteSpace s
      in take (length t - length (takeWhile isWhiteSpace (rev t))) t)"

text \<open>
  White-space runs replaced by a hyphen: reading from the left, the first unit of a run
  of white space is written as a hyphen and the further units of the run are left out. The
  flag tells whether the unit before was white space.
\<close>

fun specRuns :: "bool \<Rightarrow> ustr \<Rightarrow> ustr" where
  "specRuns inRun [] = []"
| "specRuns inRun (c # cs) =
     (if isWhiteSpace c then (if inRun then [] else [45]) @ specRuns True cs
      else c # specRuns False cs)"

text \<open>Every character outside the alphabet removed.\<close>

definition specKept :: "ustr \<Rightarrow> ustr" where
  "specKept s = filter (\<lambda>c. c \<in> set specAlphabet) s"

definition specSlug :: "platform \<Rightarrow> ustr \<Rightarrow> ustr" where
  "specSlug P s = specKept (specRuns False (specTrimmed (toLowerCase P s)))"

section \<open>Notions used in the statements\<close>

text \<open>The row an upsert of \<open>plants\<close> writes: the merged row, or the new one.\<close>

definition writtenPlant :: "plant_payload \<Rightarrow> plant_row list \<Rightarrow> plant_row" where
  "writtenPlant pl rows =
     (case find (\<lambda>r. p_key r = pl_key pl) rows of
        Some r0 \<Rightarrow> mergePlant pl r0
      | None \<Rightarrow> newPlant (freshId (map p_id rows)) pl)"

text \<open>The database after the first upsert (when it was not refused) and the second.\<close>

definition afterUpserts :: "platform \<Rightarrow> env \<Rightarrow> db \<Rightarrow> json \<Rightarrow> json \<Rightarrow> db" where
  "afterUpserts P E d best refs =
     (firstUpsert P E d best refs)
        \<lparr>plants := fst (upsertPlants (secondPayload P E best refs)
                          (plants (firstUpsert P E d best refs)))\<rparr>"

text \<open>The identifier the second upsert returns (\<open>plantData.id\<close>).\<close>

definition upsertedId :: "platform \<Rightarrow> env \<Rightarrow> db \<Rightarrow> json \<Rightarrow> json \<Rightarrow> nat" where
  "upsertedId P E d best refs =
     snd (upsertPlants (secondPayload P E best refs) (plants (firstUpsert P E d best refs)))"

text \<open>The row the insert into \<open>sightings\<close> adds.\<close>

definition sightingOf :: "platform \<Rightarrow> env \<Rightarrow> db \<Rightarrow> ustr \<Rightarrow> json \<Rightarrow> json \<Rightarrow> json \<Rightarrow> json \<Rightarrow> sighting_row" where
  "sightingOf P E d imageUrl lat lng best refs =
     newSighting E (freshId (map s_id (sightings d))) (upsertedId P E d best refs) imageUrl lat lng
       (confidenceOf best)"

text \<open>A sequence of requests to the handler, each with its environment.\<close>

fun identifyAll :: "platform \<Rightarrow> db \<Rightarrow> (env \<times> http_request) list \<Rightarrow> db" where
  "identifyAll P d [] = d"
| "identifyAll P d (r # rs) = identifyAll P (fst (identify P (fst r) d (snd r))) rs"

text \<open>\<open>trees\<close> is unchanged or has one more row at its end, with a new identifier.\<close>

definition appendsAtMostOne :: "db \<Rightarrow> db \<Rightarrow> bool" where
  "appendsAtMostOne d d' \<longleftrightarrow>
     trees d' = trees d \<or>
     (\<exists>row. trees d' = trees d @ [row] \<and> t_id row \<notin> set (map t_id (trees d)))"

section \<open>Example inputs\<close>

text \<open>
  A platform whose tables leave every unit beyond ASCII as it is, an environment in which the
  image and PlantNet answer in time and the database refuses nothing, a request for a photo of
  an oak, and the databases and answers that result.
\<close>

definition exPlatform :: platform where
  "exPlatform = \<lparr>lowerNonAscii = (\<lambda>pre c post. [c]), numberToString = (\<lambda>n. []), dbText = (\<lambda>v. None)\<rparr>"

definition exBest :: json where
  "exBest = JObj
     [(js ''score'', JNum (4 / 5)),
      (js ''species'', JObj
        [(js ''scientificNameWithoutAuthor'', JStr (js ''Quercus robur'')),
         (js ''scientificName'', JStr (js ''Quercus robur L.'')),
         (js ''commonNames'', JArr [JStr (js ''English oak'')])])]"

definition exRaw :: json where
  "exRaw = JObj [(js ''results'', JArr [exBest])]"

definition exBlob :: blob where
  "exBlob = \<lparr>blob_bytes = [], blob_type = js ''image/png''\<rparr>"

definition exImage :: fetch_response where
  "exImage = \<lparr>res_status = 200, res_content_type = Some (js ''image/png''), res_text = [],
     res_body_arrives = True,
     res_blob = Inr exBlob, res_json = None\<rparr>"

definition exAnswer :: "nat \<Rightarrow> ustr \<Rightarrow> json option \<Rightarrow> fetch_response" where
  "exAnswer st txt j =
     \<lparr>res_status = st, res_content_type = None, res_text = txt, res_body_arrives = True,
      res_blob = Inl [], res_json = j\<rparr>"

definition exEnvOf :: "fetch_outcome arrival \<Rightarrow> fetch_outcome arrival \<Rightarrow> env" where
  "exEnvOf imageArrival answerArrival =
     \<lparr>env_plantnet_key = Some (js ''secret''),
      env_supabase_configured = True,
      env_image_fetch = (\<lambda>u. imageArrival),
      env_plantnet_fetch = (\<lambda>f. answerArrival),
      env_js_now = js ''2026-01-02T21:00:00.000Z'',
      env_db_now = 1767387600,
      env_db_error = (\<lambda>c. None)\<rparr>"

definition exEnv :: "fetch_response \<Rightarrow> env" where
  "exEnv idRes = exEnvOf (After 120 (Responded exImage)) (After 900 (Responded idRes))"

definition exBody :: "(ustr \<times> json) list \<Rightarrow> json" where
  "exBody extra = JObj ((js ''imageUrl'', JStr (js ''https://example.org/oak.jpg'')) # extra)"

definition exRequest :: "(ustr \<times> json) list \<Rightarrow> http_request" where
  "exRequest extra = \<lparr>req_method = js ''POST'', req_body = Some (exBody extra)\<rparr>"

definition emptyDb :: db where
  "emptyDb = \<lparr>plants = [], sightings = [], trees = [], tree_entries = []\<rparr>"

definition exOakEnv :: env where
  "exOakEnv = exEnv (exAnswer 200 [] (Some exRaw))"

definition exOakDb :: db where
  "exOakDb =
     \<lparr>plants =
         [\<lparr>p_id = 1, p_key = js ''quercus-robur'', p_key_lc = js ''quercus-robur'',
           p_common_name = JStr (js ''English oak''),
           p_scientific_name = JStr (js ''Quercus robur L.''),
           p_family = JNull, p_genus = JNull, p_reference_images = JArr [],
           p_plant_details = exBest,
           p_updated_at = JStr (js ''2026-01-02T21:00:00.000Z'')\<rparr>],
       sightings =
         [\<lparr>s_id = 1, s_plant_id = 1, s_image_url = js ''https://example.org/oak.jpg'',
           s_lat = JNull, s_lng = JNull, s_confidence = JNum (4 / 5),
           s_created_at = 1767387600\<rparr>],
       trees = [], tree_entries = []\<rparr>"

definition exOakRun :: "db \<times> http_response" where
  "exOakRun =
     (exOakDb,
      \<lparr>rsp_status = 200,
       rsp_body = JObj
         [(js ''key'', JStr (js ''quercus-robur'')),
          (js ''id'', JNum 1),
          (js ''created_at'', JNum 1767387600),
          (js ''name'', JStr (js ''English oak'')),
          (js ''commonName'', JStr (js ''English oak'')),
          (js ''scientificName'', JStr (js ''Quercus robur L.'')),
          (js ''genus'', JNull),
          (js ''family'', JNull),
          (js ''commonNames'', JArr [JStr (js ''English oak'')]),
          (js ''gbifId'', JNull),
          (js ''powoId'', JNull),
          (js ''iucnCategory'', JNull),
          (js ''confidence'', JNum (4 / 5)),
          (js ''features'', JArr []),
          (js ''referenceImages'', JArr []),
          (js ''rawTop'', exBest)]\<rparr>)"

text \<open>
  A best match without a scientific name, with the common name "Unknown" and the family
  Fagaceae: its key is \<open>unknown\<close>, the key of a request without any result.
\<close>

definition exUnknownBest :: json where
  "exUnknownBest = JObj
     [(js ''species'', JObj
        [(js ''commonNames'', JArr [JStr (js ''Unknown'')]),
         (js ''family'', JObj [(js ''scientificNameWithoutAuthor'', JStr (js ''Fagaceae''))])])]"

definition exUnknownRaw :: json where
  "exUnknownRaw = JObj [(js ''results'', JArr [exUnknownBest])]"

definition exEmptyRaw :: json where
  "exEmptyRaw = JObj [(js ''results'', JArr [])]"

definition exUnknownDb :: db where
  "exUnknownDb =
     \<lparr>plants =
         [\<lparr>p_id = 1, p_key = js ''unknown'', p_key_lc = js ''unknown'',
           p_common_name = JStr (js ''Unknown''), p_scientific_name = JNull,
           p_family = JStr (js ''Fagaceae''), p_genus = JNull, p_reference_images = JArr [],
           p_plant_details = exUnknownBest,
           p_updated_at = JStr (js ''2026-01-02T21:00:00.000Z'')\<rparr>],
       sightings =
         [\<lparr>s_id = 1, s_plant_id = 1, s_image_url = js ''https://example.org/oak.jpg'',
           s_lat = JNull, s_lng = JNull, s_confidence = JNull, s_created_at = 1767387600\<rparr>],
       trees = [], tree_entries = []\<rparr>"

definition exEmptyEnv :: env where
  "exEmptyEnv = exEnv (exAnswer 200 [] (Some exEmptyRaw))"

definition exOakAgain :: "db \<times> http_response" where
  "exOakAgain =
     (exOakDb\<lparr>sightings := sightings exOakDb @
        [\<lparr>s_id = 2, s_plant_id = 1, s_image_url = js ''https://example.org/oak.jpg'',
          s_lat = JNull, s_lng = JNull, s_confidence = JNum (4 / 5),
          s_created_at = 1767387600\<rparr>]\<rparr>,
      \<lparr>rsp_status = 200,
       rsp_body = JObj
         [(js ''key'', JStr (js ''quercus-robur'')),
          (js ''id'', JNum 2),
          (js ''created_at'', JNum 1767387600),
          (js ''name'', JStr (js ''English oak'')),
          (js ''commonName'', JStr (js ''English oak'')),
          (js ''scientificName'', JStr (js ''Quercus robur L.'')),
          (js ''genus'', JNull),
          (js ''family'', JNull),
          (js ''commonNames'', JArr [JStr (js ''English oak'')]),
          (js ''gbifId'', JNull),
          (js ''powoId'', JNull),
          (js ''iucnCategory'', JNull),
          (js ''confidence'', JNum (4 / 5)),
          (js ''features'', JArr []),
          (js ''referenceImages'', JArr []),
          (js ''rawTop'', exBest)]\<rparr>)"

definition exEmptyOnUnknown :: "db \<times> http_response" where
  "exEmptyOnUnknown =
    (\<lparr>plants =
         [\<lparr>p_id = 1, p_key = js ''unknown'', p_key_lc = js ''unknown'',
           p_common_name = JStr (js ''Unknown''), p_scientific_name = JNull,
           p_family = JNull, p_genus = JNull, p_reference_images = JArr [],
           p_plant_details = exUnknownBest,
           p_updated_at = JStr (js ''2026-01-02T21:00:00.000Z'')\<rparr>],
       sightings = sightings exUnknownDb @
        [\<lparr>s_id = 2, s_plant_id = 1, s_image_url = js ''https://example.org/oak.jpg'',
           s_lat = JNull, s_lng = JNull, s_confidence = JNull, s_created_at = 1767387600\<rparr>],
       trees = [], tree_entries = []\<rparr>,
     \<lparr>rsp_status = 200,
       rsp_body = JObj
         [(js ''key'', JStr (js ''unknown'')),
          (js ''id'', JNum 2),
          (js ''created_at'', JNum 1767387600),
          (js ''name'', JStr (js ''Unknown'')),
          (js ''commonName'', JStr (js ''Unknown'')),
          (js ''scientificName'', JNull),
          (js ''genus'', JNull),
          (js ''family'', JNull),
          (js ''commonNames'', JArr []),
          (js ''gbifId'', JNull),
          (js ''powoId'', JNull),
          (js ''iucnCategory'', JNull),
          (js ''confidence'', JNull),
          (js ''features'', JArr []),
          (js ''referenceImages'', JArr []),
          (js ''rawTop'', JUndefined)]\<rparr>)"

text \<open>
  A best match named \<open>" Quercus \<times>  hispanica Lam. "\<close>: white space at both ends, capitals, the
  hybrid sign (unit 215), a run of two spaces and a full stop.
\<close>

definition exHybridBest :: json where
  "exHybridBest = JObj
     [(js ''score'', JNum (1 / 2)),
      (js ''species'', JObj
        [(js ''scientificNameWithoutAuthor'',
            JStr (js '' Quercus '' @ [215] @ js ''  hispanica Lam. ''))])]"

definition exHybridRaw :: json where
  "exHybridRaw = JObj [(js ''results'', JArr [exHybridBest])]"

definition exHybridEnv :: env where
  "exHybridEnv = exEnv (exAnswer 200 [] (Some exHybridRaw))"

text \<open>Responses whose head arrives and whose body never does.\<close>

definition exStalledImage :: fetch_response where
  "exStalledImage = exImage\<lparr>res_body_arrives := False\<rparr>"

definition exStalledAnswer :: fetch_response where
  "exStalledAnswer = (exAnswer 200 [] (Some exRaw))\<lparr>res_body_arrives := False\<rparr>"

definition exBadGateway :: fetch_response where
  "exBadGateway = exAnswer 503 (js ''Service Unavailable'') None"

definition exNotFound :: fetch_response where
  "exNotFound = exImage\<lparr>res_status := 404\<rparr>"

definition exOverloaded :: fetch_response where
  "exOverloaded = exAnswer 503 [] (Some (JObj [(js ''message'', JStr (js ''busy''))]))"

definition exTree :: "nat \<Rightarrow> int \<Rightarrow> ustr option \<Rightarrow> tree_row" where
  "exTree i t n =
     \<lparr>t_id = i, t_created_at = t, t_image_path = JNull, t_image_url = JNull, t_lat = JNull,
      t_lng = JNull, t_identified_name = JNull, t_scientific_name = n, t_genus = JNull,
      t_family = JNull, t_common_names = JNull, t_gbif_id = JNull, t_powo_id = JNull,
      t_iucn_category = JNull, t_confidence = JNull, t_features = JArr []\<rparr>"

definition exTrees :: "tree_row list" where
  "exTrees =
     [exTree 1 10 (Some (js ''Quercus robur'')),
      exTree 2 20 (Some (js ''Betula pendula'')),
      exTree 3 30 (Some (js ''Quercus robur'')),
      exTree 4 40 None,
      exTree 5 15 (Some (js ''Betula pendula''))]"

definition exPageEnv :: page_env where
  "exPageEnv =
     \<lparr>pv_log = Inr (Some \<lparr>lg_key = js ''quercus-robur'', lg_name = Some (js ''English oak''),
                          lg_sightings_count = 1, lg_last_seen = None, lg_thumbnail_url = None\<rparr>),
      pv_error = (\<lambda>c. None),
      pv_cancelled_after_log = False,
      pv_cancelled_after_entry = False,
      pv_cancelled_after_create = False,
      pv_cancelled_after_plant = False,
      pv_db_now = 1767387700,
      pv_js_now = js ''2026-01-02T21:05:00.000Z''\<rparr>"

definition exEntry :: entry_row where
  "exEntry =
     \<lparr>e_key = js ''quercus-robur'', e_display_name = Some (js ''English oak''), e_notes = None,
      e_created_at = 1767387700, e_updated_at = JNull\<rparr>"

definition exEntryDb :: db where
  "exEntryDb = exOakDb\<lparr>tree_entries := [exEntry]\<rparr>"

definition exEdited :: page_state where
  "exEdited = initialState\<lparr>st_displayName := js ''  My oak '', st_notes := js ''   ''\<rparr>"

section \<open>Slugs are fixed points\<close>

lemma slug_not_space: "isSlugUnit c \<Longrightarrow> \<not> isWhiteSpace c"
  by (auto simp: isSlugUnit_def isWhiteSpace_def)

lemma lowerUnits_slug: "\<forall>c \<in> set s. isSlugUnit c \<Longrightarrow> lowerUnits P pre s = s"
  by (induction s arbitrary: pre) (auto simp: isSlugUnit_def)

lemma toLowerCase_slug: "\<forall>c \<in> set s. isSlugUnit c \<Longrightarrow> toLowerCase P s = s"
  by (simp add: toLowerCase_def lowerUnits_slug)

lemma dropWhile_no_space: "\<forall>c \<in> set s. \<not> isWhiteSpace c \<Longrightarrow> dropWhile isWhiteSpace s = s"
  by (cases s) auto

lemma trim_slug: "\<forall>c \<in> set s. isSlugUnit c \<Longrightarrow> trim s = s"
  by (simp add: trim_def dropWhile_no_space slug_not_space)

lemma hyphenateSpaces_slug: "\<forall>c \<in> set s. isSlugUnit c \<Longrightarrow> hyphenateSpaces s = s"
  by (induction s) (auto simp: slug_not_space)

lemma dropNonSlug_slug: "\<forall>c \<in> set s. isSlugUnit c \<Longrightarrow> dropNonSlug s = s"
  by (simp add: dropNonSlug_def)

lemma slugifyKey_units: "\<forall>c \<in> set (slugifyKey P s). isSlugUnit c"
  by (simp add: slugifyKey_def dropNonSlug_def)

lemma slugifyKey_fixed: "slugifyKey P (slugifyKey P s) = slugifyKey P s"
proof -
  have u: "\<forall>c \<in> set (slugifyKey P s). isSlugUnit c"
    by (rule slugifyKey_units)
  show ?thesis
    unfolding slugifyKey_def [of P "slugifyKey P s"]
    by (simp add: toLowerCase_slug [OF u] trim_slug [OF u] hyphenateSpaces_slug [OF u]
        dropNonSlug_slug [OF u])
qed

lemma plantKeyLcOf_slug: "plantKeyLcOf P (slugifyKey P s) = slugifyKey P s"
proof -
  have u: "\<forall>c \<in> set (slugifyKey P s). isSlugUnit c"
    by (rule slugifyKey_units)
  show ?thesis
    unfolding plantKeyLcOf_def
    by (simp add: toLowerCase_slug [OF u] trim_slug [OF u] hyphenateSpaces_slug [OF u])
qed

section \<open>The upsert of \<open>plants\<close>\<close>

lemma find_key_mem: "find (\<lambda>r. p_key r = k) rows = Some r0 \<Longrightarrow> r0 \<in> set rows \<and> p_key r0 = k"
  by (induction rows) (auto split: if_splits)

lemma find_key_none: "find (\<lambda>r. p_key r = k) rows = None \<longleftrightarrow> k \<notin> p_key ` set rows"
  by (induction rows) auto

lemma find_key_some: "k \<in> p_key ` set rows \<Longrightarrow> \<exists>r0. find (\<lambda>r. p_key r = k) rows = Some r0"
  using find_key_none [of k rows] by (cases "find (\<lambda>r. p_key r = k) rows") auto

lemma mergePlant_id: "p_id (mergePlant pl r) = p_id r"
  by (simp add: mergePlant_def)

lemma mergePlant_key: "p_key (mergePlant pl r) = pl_key pl"
  by (simp add: mergePlant_def)

lemma upsert_ids: "map p_id (fst (upsertPlants pl rows)) = map p_id rows \<or>
   map p_id (fst (upsertPlants pl rows)) = map p_id rows @ [freshId (map p_id rows)]"
  by (auto simp: upsertPlants_def newPlant_def mergePlant_id split: option.splits)

lemma upsert_keys_present: 
  assumes "pl_key pl \<in> p_key ` set rows"
  shows "map p_key (fst (upsertPlants pl rows)) = map p_key rows"
proof -
  obtain r0 where "find (\<lambda>r. p_key r = pl_key pl) rows = Some r0"
    using find_key_some [OF assms] by blast
  then show ?thesis
    by (simp add: upsertPlants_def mergePlant_key)
qed

lemma upsert_keys_absent: 
  assumes "pl_key pl \<notin> p_key ` set rows"
  shows "map p_key (fst (upsertPlants pl rows)) = map p_key rows @ [pl_key pl]"
  using assms find_key_none [of "pl_key pl" rows]
  by (simp add: upsertPlants_def newPlant_def)

lemma fold_max_ge_init: "(a::nat) \<le> fold max xs a"
proof (induction xs arbitrary: a)
  case Nil
  show ?case by simp
next
  case (Cons x xs)
  have "a \<le> max x a" by simp
  also have "\<dots> \<le> fold max xs (max x a)" by (rule Cons.IH)
  finally show ?case by simp
qed

lemma fold_max_ge: "x \<in> set xs \<Longrightarrow> x \<le> fold max xs (a::nat)"
proof (induction xs arbitrary: a)
  case Nil
  then show ?case by simp
next
  case (Cons y ys)
  show ?case
  proof (cases "x = y")
    case True
    have "x \<le> max y a" using True by simp
    also have "\<dots> \<le> fold max ys (max y a)" by (rule fold_max_ge_init)
    finally show ?thesis by simp
  next
    case False
    with Cons.prems have "x \<in> set ys" by simp
    then show ?thesis using Cons.IH by simp
  qed
qed

lemma freshId_fresh: "freshId ids \<notin> set ids"
  using fold_max_ge [of "freshId ids" ids 0] by (auto simp: freshId_def)

lemma upsert_distinct_keys:
  "distinct (map p_key rows) \<Longrightarrow> distinct (map p_key (fst (upsertPlants pl rows)))"
  by (cases "pl_key pl \<in> p_key ` set rows") (simp_all add: upsert_keys_present upsert_keys_absent)

lemma upsert_distinct_ids:
  "distinct (map p_id rows) \<Longrightarrow> distinct (map p_id (fst (upsertPlants pl rows)))"
  using upsert_ids [of pl rows] freshId_fresh [of "map p_id rows"] by auto

lemma upsert_ids_kept: "set (map p_id rows) \<subseteq> set (map p_id (fst (upsertPlants pl rows)))"
proof -
  from upsert_ids [of pl rows] show ?thesis
  proof
    assume e: "map p_id (fst (upsertPlants pl rows)) = map p_id rows"
    show ?thesis unfolding e by (rule subset_refl)
  next
    assume e: "map p_id (fst (upsertPlants pl rows)) = map p_id rows @ [freshId (map p_id rows)]"
    show ?thesis unfolding e by auto
  qed
qed

lemma upsert_returns_row:
  "\<exists>r \<in> set (fst (upsertPlants pl rows)). p_id r = snd (upsertPlants pl rows) \<and> p_key r = pl_key pl"
proof (cases "find (\<lambda>r. p_key r = pl_key pl) rows")
  case None
  then show ?thesis by (simp add: upsertPlants_def newPlant_def)
next
  case (Some r0)
  then have "r0 \<in> set rows" "p_key r0 = pl_key pl" using find_key_mem by blast+
  then have m: "mergePlant pl r0 \<in> set (fst (upsertPlants pl rows))"
    using Some by (force simp: upsertPlants_def)
  have i: "p_id (mergePlant pl r0) = snd (upsertPlants pl rows)"
    using Some by (simp add: upsertPlants_def mergePlant_id)
  have k: "p_key (mergePlant pl r0) = pl_key pl"
    by (rule mergePlant_key)
  from m i k show ?thesis by blast
qed

lemma upsert_others:
  "filter (\<lambda>r. p_key r \<noteq> pl_key pl) (fst (upsertPlants pl rows)) = filter (\<lambda>r. p_key r \<noteq> pl_key pl) rows"
proof (cases "find (\<lambda>r. p_key r = pl_key pl) rows")
  case None
  then show ?thesis by (simp add: upsertPlants_def newPlant_def)
next
  case (Some r0)
  have "filter (\<lambda>r. p_key r \<noteq> k) (map (\<lambda>r. if p_key r = k then mergePlant pl r else r) rows)
      = filter (\<lambda>r. p_key r \<noteq> k) rows" if "k = pl_key pl" for k
    using that by (induction rows) (auto simp: mergePlant_key)
  then show ?thesis using Some by (simp add: upsertPlants_def)
qed

section \<open>Where a request can end\<close>

lemma withTimeout_Settled:
  "withTimeout ms a = Settled r \<longleftrightarrow> (\<exists>t. a = After t r \<and> t < ms)"
  by (cases a) (auto simp: withTimeout_def)

lemma withTimeout_Aborted:
  "withTimeout ms a = Aborted \<longleftrightarrow> (a = Never \<or> (\<exists>t r. a = After t r \<and> ms \<le> t))"
  by (cases a) (auto simp: withTimeout_def)

lemma callPlantNet_rule:
  assumes err: "\<And>rsp. rsp_status rsp \<noteq> 200 \<Longrightarrow> Q (d, rsp)"
    and ok: "\<And>form t idRes refs. env_plantnet_fetch E form = After t (Responded idRes) \<Longrightarrow>
       t < 30000 \<Longrightarrow> resOk idRes \<Longrightarrow> referenceImagesOf (bestOf (rawOf idRes)) = Some refs \<Longrightarrow>
       Q (persist P E d imageUrl lat lng (bestOf (rawOf idRes)) refs)"
  shows "Q (callPlantNet P E d apiKey imageUrl lat lng organ imgRes imgBlob)"
  unfolding callPlantNet_def afterPlantNet_def
  by (auto simp: withTimeout_Settled unexpected_def plantNetFailed_def 
      split: settled.splits fetch_outcome.splits option.splits intro!: err ok) 

lemma tryBlock_rule:
  assumes err: "\<And>rsp. rsp_status rsp \<noteq> 200 \<Longrightarrow> Q (d, rsp)"
    and ok: "\<And>form t idRes refs. env_plantnet_fetch E form = After t (Responded idRes) \<Longrightarrow>
       t < 30000 \<Longrightarrow> resOk idRes \<Longrightarrow> referenceImagesOf (bestOf (rawOf idRes)) = Some refs \<Longrightarrow>
       Q (persist P E d imageUrl lat lng (bestOf (rawOf idRes)) refs)"
  shows "Q (tryBlock P E d apiKey imageUrl lat lng organ)"
proof (cases "withTimeout 15000 (env_image_fetch E (normalizeImageUrl imageUrl))")
  case Aborted
  then show ?thesis by (simp add: tryBlock_def err)
next
  case (Settled outcome)
  show ?thesis
  proof (cases outcome)
    case (Rejected e)
    with Settled show ?thesis by (simp add: tryBlock_def unexpected_def err)
  next
    case (Responded imgRes)
    show ?thesis
    proof (cases "res_blob imgRes")
      case (Inl e)
      with Settled Responded show ?thesis by (simp add: tryBlock_def unexpected_def err)
    next
      case (Inr imgBlob)
      have "Q (callPlantNet P E d apiKey imageUrl lat lng organ imgRes imgBlob)"
        by (rule callPlantNet_rule [where Q = Q, OF err ok])
      with Settled Responded Inr show ?thesis by (simp add: tryBlock_def err)
    qed
  qed
qed

lemma identify_rule:
  assumes err: "\<And>rsp. rsp_status rsp \<noteq> 200 \<Longrightarrow> Q (d, rsp)"
    and ok: "\<And>body imageUrl form t idRes refs.
       req_body req = Some body \<Longrightarrow> getProp body ''imageUrl'' = JStr imageUrl \<Longrightarrow>
       env_plantnet_fetch E form = After t (Responded idRes) \<Longrightarrow>
       t < 30000 \<Longrightarrow> resOk idRes \<Longrightarrow> referenceImagesOf (bestOf (rawOf idRes)) = Some refs \<Longrightarrow>
       Q (persist P E d imageUrl (numberOrNull (getProp body ''lat''))
            (numberOrNull (getProp body ''lng'')) (bestOf (rawOf idRes)) refs)"
  shows "Q (identify P E d req)"
proof (cases "req_body req")
  case None
  then show ?thesis by (simp add: identify_def errorBody_def err)
next
  case (Some body)
  show ?thesis
  proof (cases "\<exists>imageUrl. getProp body ''imageUrl'' = JStr imageUrl")
    case False
    with Some show ?thesis
      by (cases "getProp body ''imageUrl''") (simp_all add: identify_def missingImageUrl_def err)
  next
    case True
    then obtain imageUrl where u: "getProp body ''imageUrl'' = JStr imageUrl" by blast
    have "Q (tryBlock P E d apiKey imageUrl (numberOrNull (getProp body ''lat''))
                (numberOrNull (getProp body ''lng'')) organ)" for apiKey organ
      by (rule tryBlock_rule [where Q = Q, OF err ok [OF Some u]])
    with Some u show ?thesis
      by (simp add: identify_def checkOrgan_def Let_def missingImageUrl_def
          missingPlantNetKey_def invalidOrgan_def err split: option.splits)
  qed
qed

section \<open>The row an upsert writes\<close>

lemma find_distinct_filter:
  "distinct (map p_key rows) \<Longrightarrow> find (\<lambda>r. p_key r = k) rows = Some r0 \<Longrightarrow>
   filter (\<lambda>r. p_key r = k) rows = [r0]"
proof (induction rows)
  case Nil
  then show ?case by simp
next
  case (Cons a rows)
  show ?case
  proof (cases "p_key a = k")
    case True
    with Cons.prems have "k \<notin> p_key ` set rows" "a = r0" by auto
    then have "filter (\<lambda>r. p_key r = k) rows = []"
      unfolding filter_empty_conv by (metis image_eqI)
    with True \<open>a = r0\<close> show ?thesis by simp
  next
    case False
    with Cons show ?thesis by simp
  qed
qed

lemma filter_merge:
  "filter (\<lambda>r. p_key r = pl_key pl) (map (\<lambda>r. if p_key r = pl_key pl then mergePlant pl r else r) rows)
   = map (mergePlant pl) (filter (\<lambda>r. p_key r = pl_key pl) rows)"
  by (induction rows) (auto simp: mergePlant_key)

lemma upsert_one_row:
  assumes "distinct (map p_key rows)"
  shows "filter (\<lambda>r. p_key r = pl_key pl) (fst (upsertPlants pl rows)) = [writtenPlant pl rows]"
proof (cases "find (\<lambda>r. p_key r = pl_key pl) rows")
  case None
  then have "pl_key pl \<notin> p_key ` set rows" by (simp add: find_key_none)
  then have "filter (\<lambda>r. p_key r = pl_key pl) rows = []"
    unfolding filter_empty_conv by (metis image_eqI)
  with None show ?thesis by (simp add: upsertPlants_def writtenPlant_def newPlant_def)
next
  case (Some r0)
  then show ?thesis
    using find_distinct_filter [OF assms Some]
    by (simp add: upsertPlants_def writtenPlant_def filter_merge)
qed

lemma writtenPlant_id: "p_id (writtenPlant pl rows) = snd (upsertPlants pl rows)"
  by (simp add: writtenPlant_def upsertPlants_def mergePlant_id newPlant_def split: option.splits)

lemma setCol_defined: "v \<noteq> JUndefined \<Longrightarrow> setCol v old = v"
  by (simp add: setCol_def)

lemma writtenPlant_cols:
  "p_key (writtenPlant pl rows) = pl_key pl"
  "p_key_lc (writtenPlant pl rows) = pl_key_lc pl"
  "pl_common_name pl \<noteq> JUndefined \<Longrightarrow> p_common_name (writtenPlant pl rows) = pl_common_name pl"
  "pl_scientific_name pl \<noteq> JUndefined \<Longrightarrow> p_scientific_name (writtenPlant pl rows) = pl_scientific_name pl"
  "pl_family pl \<noteq> JUndefined \<Longrightarrow> p_family (writtenPlant pl rows) = pl_family pl"
  "pl_genus pl \<noteq> JUndefined \<Longrightarrow> p_genus (writtenPlant pl rows) = pl_genus pl"
  "pl_reference_images pl \<noteq> JUndefined \<Longrightarrow> p_reference_images (writtenPlant pl rows) = pl_reference_images pl"
  "pl_plant_details pl \<noteq> JUndefined \<Longrightarrow> p_plant_details (writtenPlant pl rows) = pl_plant_details pl"
  by (simp_all add: writtenPlant_def mergePlant_def newPlant_def setCol_def split: option.splits)

lemma orElse_defined: "b \<noteq> JUndefined \<Longrightarrow> orElse a b \<noteq> JUndefined"
  by (cases a) (auto simp: orElse_def)

lemma commonNameOf_defined: "commonNameOf best \<noteq> JUndefined"
  by (simp add: commonNameOf_def orElse_defined)

lemma commonNameOf_truthy: "truthy (commonNameOf best)"
  by (simp add: commonNameOf_def orElse_def js_def)

lemma scientificNameOf_defined: "scientificNameOf best \<noteq> JUndefined"
  by (simp add: scientificNameOf_def orElse_defined)

lemma familyOf_defined: "familyOf best \<noteq> JUndefined"
  by (simp add: familyOf_def orElse_defined)

lemma genusOf_defined: "genusOf best \<noteq> JUndefined"
  by (simp add: genusOf_def orElse_defined)

lemma referenceImagesOf_defined: "referenceImagesOf best = Some refs \<Longrightarrow> refs \<noteq> JUndefined"
  by (auto simp: referenceImagesOf_def split: json.splits)

lemma firstUpsert_distinct:
  "distinct (map p_key (plants d)) \<Longrightarrow> distinct (map p_key (plants (firstUpsert P E d best refs)))"
  by (simp add: firstUpsert_def upsert_distinct_keys split: option.splits)

lemma firstUpsert_sightings: "sightings (firstUpsert P E d best refs) = sightings d"
  by (simp add: firstUpsert_def split: option.splits)

lemma firstUpsert_ids:
  "set (map p_id (plants d)) \<subseteq> set (map p_id (plants (firstUpsert P E d best refs)))"
  using upsert_ids_kept [of "plants d" "firstPayload P best refs"]
  by (simp add: firstUpsert_def split: option.splits)

lemma firstUpsert_others:
  "filter (\<lambda>r. p_key r \<noteq> plantKeyOf P best) (plants (firstUpsert P E d best refs))
   = filter (\<lambda>r. p_key r \<noteq> plantKeyOf P best) (plants d)"
  using upsert_others [of "firstPayload P best refs" "plants d"]
  by (simp add: firstUpsert_def firstPayload_def split: option.splits)

lemma firstUpsert_trees: "trees (firstUpsert P E d best refs) = trees d"
  by (simp add: firstUpsert_def split: option.splits)

lemma firstUpsert_entries: "tree_entries (firstUpsert P E d best refs) = tree_entries d"
  by (simp add: firstUpsert_def split: option.splits)

section \<open>The three database calls\<close>

lemma successBody_fields:
  "getProp (successBody P row best refs) ''key'' = JStr (plantKeyOf P best)"
  "getProp (successBody P row best refs) ''name'' = commonNameOf best"
  "getProp (successBody P row best refs) ''commonName'' = commonNameOf best"
  "getProp (successBody P row best refs) ''scientificName'' = scientificNameOf best"
  "getProp (successBody P row best refs) ''genus'' = genusOf best"
  "getProp (successBody P row best refs) ''family'' = familyOf best"
  "getProp (successBody P row best refs) ''confidence'' = confidenceOf best"
  "getProp (successBody P row best refs) ''referenceImages'' = refs"
  "getProp (successBody P row best refs) ''rawTop'' = best"
  by (simp_all add: successBody_def js_def)

lemma insertSighting_status:
  "rsp_status (snd (insertSighting P E d plantId imageUrl lat lng best refs)) = 200
   \<longleftrightarrow> env_db_error E SightingsInsert = None"
  by (simp add: insertSighting_def split: option.splits)

lemma persist_status:
  "rsp_status (snd (persist P E d imageUrl lat lng best refs)) = 200
   \<longleftrightarrow> env_db_error E PlantsUpsertSecond = None \<and> env_db_error E SightingsInsert = None"
  by (simp add: persist_def insertSighting_status split: option.splits)

lemma persist_success:
  assumes "rsp_status (snd (persist P E d imageUrl lat lng best refs)) = 200"
  shows "persist P E d imageUrl lat lng best refs =
    ((afterUpserts P E d best refs)
        \<lparr>sightings := sightings d @ [sightingOf P E d imageUrl lat lng best refs]\<rparr>,
     \<lparr>rsp_status = 200,
      rsp_body = successBody P (sightingOf P E d imageUrl lat lng best refs) best refs\<rparr>)"
  using assms unfolding persist_status
  by (simp add: persist_def insertSighting_def afterUpserts_def sightingOf_def upsertedId_def
      firstUpsert_sightings)

lemma persist_failure:
  assumes "rsp_status (snd (persist P E d imageUrl lat lng best refs)) \<noteq> 200"
  shows "fst (persist P E d imageUrl lat lng best refs) = firstUpsert P E d best refs \<or>
         fst (persist P E d imageUrl lat lng best refs) = afterUpserts P E d best refs"
  using assms
  by (auto simp: persist_def insertSighting_def afterUpserts_def split: option.splits)

lemma persist_plants:
  "plants (fst (persist P E d imageUrl lat lng best refs)) = plants (firstUpsert P E d best refs) \<or>
   plants (fst (persist P E d imageUrl lat lng best refs)) = plants (afterUpserts P E d best refs)"
  by (auto simp: persist_def insertSighting_def afterUpserts_def split: option.splits)

lemma afterUpserts_distinct:
  "distinct (map p_key (plants d)) \<Longrightarrow> distinct (map p_key (plants (afterUpserts P E d best refs)))"
  by (simp add: afterUpserts_def upsert_distinct_keys firstUpsert_distinct)

lemma afterUpserts_ids:
  "set (map p_id (plants d)) \<subseteq> set (map p_id (plants (afterUpserts P E d best refs)))"
  using firstUpsert_ids [of d P E best refs]
    upsert_ids_kept [of "plants (firstUpsert P E d best refs)" "secondPayload P E best refs"]
  by (simp add: afterUpserts_def)

lemma upsert_keys_kept: "set (map p_key rows) \<subseteq> set (map p_key (fst (upsertPlants pl rows)))"
  by (cases "pl_key pl \<in> p_key ` set rows") (simp_all add: upsert_keys_present upsert_keys_absent del: set_map, auto)

lemma firstUpsert_keys:
  "set (map p_key (plants d)) \<subseteq> set (map p_key (plants (firstUpsert P E d best refs)))"
  using upsert_keys_kept [of "plants d" "firstPayload P best refs"]
  by (simp add: firstUpsert_def split: option.splits)

lemma afterUpserts_keys:
  "set (map p_key (plants d)) \<subseteq> set (map p_key (plants (afterUpserts P E d best refs)))"
  using firstUpsert_keys [of d P E best refs]
    upsert_keys_kept [of "plants (firstUpsert P E d best refs)" "secondPayload P E best refs"]
  by (simp add: afterUpserts_def)

lemma afterUpserts_others:
  "filter (\<lambda>r. p_key r \<noteq> plantKeyOf P best) (plants (afterUpserts P E d best refs))
   = filter (\<lambda>r. p_key r \<noteq> plantKeyOf P best) (plants d)"
  using upsert_others [of "secondPayload P E best refs" "plants (firstUpsert P E d best refs)"]
    firstUpsert_others [of P best E d refs]
  by (simp add: afterUpserts_def secondPayload_def)

lemma afterUpserts_row:
  assumes "distinct (map p_key (plants d))"
  shows "filter (\<lambda>r. p_key r = plantKeyOf P best) (plants (afterUpserts P E d best refs))
    = [writtenPlant (secondPayload P E best refs) (plants (firstUpsert P E d best refs))]"
  using upsert_one_row [where rows = "plants (firstUpsert P E d best refs)"
      and pl = "secondPayload P E best refs", OF firstUpsert_distinct [OF assms]]
  by (simp add: afterUpserts_def secondPayload_def)

section \<open>What every request preserves\<close>

lemma identify_distinct_keys:
  assumes "distinct (map p_key (plants d))"
  shows "distinct (map p_key (plants (fst (identify P E d req))))"
proof (rule identify_rule [where Q = "\<lambda>x. distinct (map p_key (plants (fst x)))"])
  show "distinct (map p_key (plants (fst (d, rsp))))" for rsp using assms by simp
next
  fix imageUrl lat lng best refs
  show "distinct (map p_key (plants (fst (persist P E d imageUrl lat lng best refs))))"
    using persist_plants [of P E d imageUrl lat lng best refs]
      firstUpsert_distinct [OF assms, of P E best refs] afterUpserts_distinct [OF assms, of P E best refs]
    by auto
qed

lemma identify_keys_kept:
  "set (map p_key (plants d)) \<subseteq> set (map p_key (plants (fst (identify P E d req))))"
proof (rule identify_rule [where Q = "\<lambda>x. set (map p_key (plants d)) \<subseteq> set (map p_key (plants (fst x)))"])
  show "set (map p_key (plants d)) \<subseteq> set (map p_key (plants (fst (d, rsp))))" for rsp by simp
next
  fix imageUrl lat lng best refs
  show "set (map p_key (plants d)) \<subseteq> set (map p_key (plants (fst (persist P E d imageUrl lat lng best refs))))"
    using persist_plants [of P E d imageUrl lat lng best refs]
      firstUpsert_keys [of d P E best refs] afterUpserts_keys [of d P E best refs]
    by auto
qed

lemma identify_ids_kept:
  "set (map p_id (plants d)) \<subseteq> set (map p_id (plants (fst (identify P E d req))))"
proof (rule identify_rule [where Q = "\<lambda>x. set (map p_id (plants d)) \<subseteq> set (map p_id (plants (fst x)))"])
  show "set (map p_id (plants d)) \<subseteq> set (map p_id (plants (fst (d, rsp))))" for rsp by simp
next
  fix imageUrl lat lng best refs
  show "set (map p_id (plants d)) \<subseteq> set (map p_id (plants (fst (persist P E d imageUrl lat lng best refs))))"
    using persist_plants [of P E d imageUrl lat lng best refs]
      firstUpsert_ids [of d P E best refs] afterUpserts_ids [of d P E best refs]
    by auto
qed

lemma identifyAll_keys:
  "distinct (map p_key (plants d)) \<Longrightarrow>
   distinct (map p_key (plants (identifyAll P d runs))) \<and>
   set (map p_key (plants d)) \<subseteq> set (map p_key (plants (identifyAll P d runs)))"
proof (induction runs arbitrary: d)
  case Nil
  then show ?case by simp
next
  case (Cons r rs)
  have 1: "distinct (map p_key (plants (fst (identify P (fst r) d (snd r)))))"
    by (rule identify_distinct_keys [OF Cons.prems])
  have 2: "set (map p_key (plants d)) \<subseteq> set (map p_key (plants (fst (identify P (fst r) d (snd r)))))"
    by (rule identify_keys_kept)
  from Cons.IH [OF 1] 2 show ?case by auto
qed

lemma distinct_one_row:
  "distinct (map f xs) \<Longrightarrow> k \<in> set (map f xs) \<Longrightarrow> length (filter (\<lambda>x. f x = k) xs) = 1"
proof (induction xs)
  case Nil
  then show ?case by simp
next
  case (Cons a xs)
  show ?case
  proof (cases "f a = k")
    case True
    with Cons.prems have "k \<notin> f ` set xs" by auto
    then have "filter (\<lambda>x. f x = k) xs = []"
      unfolding filter_empty_conv by (metis image_eqI)
    with True show ?thesis by simp
  next
    case False
    with Cons show ?thesis by auto
  qed
qed

lemma persist_written:
  assumes dk: "distinct (map p_key (plants d))"
    and refs: "refs \<noteq> JUndefined"
    and ok: "rsp_status (snd (persist P E d imageUrl lat lng best refs)) = 200"
  shows "\<exists>r. filter (\<lambda>y. JStr (p_key y) = getProp (rsp_body (snd (persist P E d imageUrl lat lng best refs))) ''key'')
               (plants (fst (persist P E d imageUrl lat lng best refs))) = [r] \<and>
        p_common_name r = getProp (rsp_body (snd (persist P E d imageUrl lat lng best refs))) ''commonName'' \<and>
        p_scientific_name r = getProp (rsp_body (snd (persist P E d imageUrl lat lng best refs))) ''scientificName'' \<and>
        p_family r = getProp (rsp_body (snd (persist P E d imageUrl lat lng best refs))) ''family'' \<and>
        p_genus r = getProp (rsp_body (snd (persist P E d imageUrl lat lng best refs))) ''genus'' \<and>
        p_reference_images r = getProp (rsp_body (snd (persist P E d imageUrl lat lng best refs))) ''referenceImages'' \<and>
        (getProp (rsp_body (snd (persist P E d imageUrl lat lng best refs))) ''rawTop'' \<noteq> JUndefined \<longrightarrow>
           p_plant_details r = getProp (rsp_body (snd (persist P E d imageUrl lat lng best refs))) ''rawTop'') \<and>
        filter (\<lambda>y. JStr (p_key y) \<noteq> getProp (rsp_body (snd (persist P E d imageUrl lat lng best refs))) ''key'')
               (plants (fst (persist P E d imageUrl lat lng best refs)))
         = filter (\<lambda>y. JStr (p_key y) \<noteq> getProp (rsp_body (snd (persist P E d imageUrl lat lng best refs))) ''key'')
               (plants d)"
proof -
  let ?w = "writtenPlant (secondPayload P E best refs) (plants (firstUpsert P E d best refs))"
  have cols: "p_common_name ?w = commonNameOf best" "p_scientific_name ?w = scientificNameOf best"
    "p_family ?w = familyOf best" "p_genus ?w = genusOf best" "p_reference_images ?w = refs"
    "best \<noteq> JUndefined \<longrightarrow> p_plant_details ?w = best"
    using refs
    by (simp_all add: writtenPlant_cols secondPayload_def commonNameOf_defined
        scientificNameOf_defined familyOf_defined genusOf_defined)
  show ?thesis
    unfolding persist_success [OF ok]
    by (rule exI [of _ ?w])
       (simp add: successBody_fields afterUpserts_row [OF dk] afterUpserts_others cols)
qed

section \<open>The examples, evaluated\<close>

lemmas run_defs = identify_def checkOrgan_def tryBlock_def callPlantNet_def plantNetForm_def afterPlantNet_def persist_def
  insertSighting_def firstUpsert_def upsertPlants_def newPlant_def mergePlant_def setCol_def
  firstPayload_def secondPayload_def newSighting_def successBody_def freshId_def
  withTimeout_def resOk_def rawOf_def bestOf_def speciesOf_def commonNameOf_def scientificNameOf_def
  familyOf_def genusOf_def commonNamesOf_def gbifIdOf_def powoIdOf_def iucnCategoryOf_def
  stringOrNull_def confidenceOf_def numberOrNull_def referenceImagesOf_def referenceImage_def
  rawKeyOf_def plantKeyOf_def slugifyKey_def plantKeyLcOf_def toLowerCase_def trim_def
  dropNonSlug_def isWhiteSpace_def isSlugUnit_def orElse_def nullish_def validOrgans_def
  normalizeImageUrl_def contentTypeOf_def extensionOf_def js_def
  exPlatform_def exBest_def exRaw_def exBlob_def exImage_def exAnswer_def exEnv_def exEnvOf_def exBody_def
  exRequest_def emptyDb_def
  errorBody_def errorDetails_def unexpected_def invalidOrgan_def missingImageUrl_def
  missingPlantNetKey_def plantNetFailed_def

lemma plantKeyOf_source:
  "plantKeyOf P best =
     dropNonSlug (hyphenateSpaces (trim (toLowerCase P (toStringJS P
       (if truthy (getProp (getProp best ''species'') ''scientificNameWithoutAuthor'')
        then getProp (getProp best ''species'') ''scientificNameWithoutAuthor''
        else if truthy (getProp (getProp best ''species'') ''scientificName'')
        then getProp (getProp best ''species'') ''scientificName''
        else if truthy (index0 (getProp (getProp best ''species'') ''commonNames''))
        then index0 (getProp (getProp best ''species'') ''commonNames'')
        else JStr (js ''Unknown''))))))"
  by (simp add: plantKeyOf_def slugifyKey_def rawKeyOf_def commonNameOf_def speciesOf_def orElse_def js_def)

lemma afterUpserts_sightings: "sightings (afterUpserts P E d best refs) = sightings d"
  by (simp add: afterUpserts_def firstUpsert_sightings)

lemma afterUpserts_returned:
  "\<exists>r \<in> set (plants (afterUpserts P E d best refs)).
      p_id r = upsertedId P E d best refs \<and> p_key r = plantKeyOf P best"
  using upsert_returns_row [of "secondPayload P E best refs" "plants (firstUpsert P E d best refs)"]
  by (simp add: afterUpserts_def upsertedId_def secondPayload_def)

lemma sightingOf_plant_id: "s_plant_id (sightingOf P E d imageUrl lat lng best refs) = upsertedId P E d best refs"
  by (simp add: sightingOf_def newSighting_def)

lemma exOakRun_eval:
  "identify exPlatform exOakEnv emptyDb (exRequest []) = exOakRun"
  by (simp add: run_defs exOakRun_def exOakDb_def exOakEnv_def)

lemma exUnknownDb_eval:
  "fst (identify exPlatform (exEnv (exAnswer 200 [] (Some exUnknownRaw))) emptyDb (exRequest [])) = exUnknownDb"
  by (simp add: run_defs exUnknownDb_def exUnknownBest_def exUnknownRaw_def)

lemma exEmpty_on_unknown_eval:
  "identify exPlatform exEmptyEnv exUnknownDb (exRequest []) = exEmptyOnUnknown"
  by (simp add: run_defs exUnknownDb_def exUnknownBest_def exEmptyRaw_def exEmptyEnv_def
      exEmptyOnUnknown_def)

lemma exOakAgain_eval:
  "identify exPlatform exOakEnv exOakDb (exRequest []) = exOakAgain"
  by (simp add: run_defs exOakDb_def exOakEnv_def exOakAgain_def)

section \<open>Requests answered with 200\<close>

lemma identify_written:
  assumes dk: "distinct (map p_key (plants d))"
    and ok: "rsp_status (snd (identify P E d req)) = 200"
  shows "\<exists>r. filter (\<lambda>y. JStr (p_key y) = getProp (rsp_body (snd (identify P E d req))) ''key'')
               (plants (fst (identify P E d req))) = [r] \<and>
        p_common_name r = getProp (rsp_body (snd (identify P E d req))) ''commonName'' \<and>
        p_scientific_name r = getProp (rsp_body (snd (identify P E d req))) ''scientificName'' \<and>
        p_family r = getProp (rsp_body (snd (identify P E d req))) ''family'' \<and>
        p_genus r = getProp (rsp_body (snd (identify P E d req))) ''genus'' \<and>
        p_reference_images r = getProp (rsp_body (snd (identify P E d req))) ''referenceImages'' \<and>
        (getProp (rsp_body (snd (identify P E d req))) ''rawTop'' \<noteq> JUndefined \<longrightarrow>
           p_plant_details r = getProp (rsp_body (snd (identify P E d req))) ''rawTop'') \<and>
        filter (\<lambda>y. JStr (p_key y) \<noteq> getProp (rsp_body (snd (identify P E d req))) ''key'')
               (plants (fst (identify P E d req)))
         = filter (\<lambda>y. JStr (p_key y) \<noteq> getProp (rsp_body (snd (identify P E d req))) ''key'')
               (plants d)"
proof -
  let ?Q = "\<lambda>x. rsp_status (snd x) = 200 \<longrightarrow> (\<exists>r. filter (\<lambda>y. JStr (p_key y) = getProp (rsp_body (snd x)) ''key'')
               (plants (fst x)) = [r] \<and>
        p_common_name r = getProp (rsp_body (snd x)) ''commonName'' \<and>
        p_scientific_name r = getProp (rsp_body (snd x)) ''scientificName'' \<and>
        p_family r = getProp (rsp_body (snd x)) ''family'' \<and>
        p_genus r = getProp (rsp_body (snd x)) ''genus'' \<and>
        p_reference_images r = getProp (rsp_body (snd x)) ''referenceImages'' \<and>
        (getProp (rsp_body (snd x)) ''rawTop'' \<noteq> JUndefined \<longrightarrow>
           p_plant_details r = getProp (rsp_body (snd x)) ''rawTop'') \<and>
        filter (\<lambda>y. JStr (p_key y) \<noteq> getProp (rsp_body (snd x)) ''key'') (plants (fst x))
         = filter (\<lambda>y. JStr (p_key y) \<noteq> getProp (rsp_body (snd x)) ''key'') (plants d))"
  have "?Q (identify P E d req)"
  proof (rule identify_rule [where Q = ?Q])
    show "?Q (d, rsp)" if "rsp_status rsp \<noteq> 200" for rsp using that by simp
  next
    fix body imageUrl idRes refs
    assume "referenceImagesOf (bestOf (rawOf idRes)) = Some refs"
    then have refs: "refs \<noteq> JUndefined" by (rule referenceImagesOf_defined)
    show "?Q (persist P E d imageUrl (numberOrNull (getProp body ''lat''))
            (numberOrNull (getProp body ''lng'')) (bestOf (rawOf idRes)) refs)"
      using persist_written [OF dk refs] by blast
  qed
  with ok show ?thesis by simp
qed

lemma identifyAll_one_row:
  assumes "distinct (map p_key (plants d))" and "k \<in> set (map p_key (plants d))"
  shows "length (filter (\<lambda>y. p_key y = k) (plants (identifyAll P d runs))) = 1"
proof -
  from identifyAll_keys [OF assms(1), of P runs] assms(2)
  have "distinct (map p_key (plants (identifyAll P d runs)))"
    and "k \<in> set (map p_key (plants (identifyAll P d runs)))" by auto
  then show ?thesis by (rule distinct_one_row)
qed

lemma identify_sightings:
  "sightings (fst (identify P E d req)) = sightings d \<or>
   (\<exists>imageUrl lat lng best refs. env_db_error E PlantsUpsertSecond = None \<and>
      sightings (fst (identify P E d req)) = sightings d @ [sightingOf P E d imageUrl lat lng best refs] \<and>
      s_plant_id (sightingOf P E d imageUrl lat lng best refs)
        = snd (upsertPlants (secondPayload P E best refs) (plants (firstUpsert P E d best refs))) \<and>
      s_plant_id (sightingOf P E d imageUrl lat lng best refs)
        \<in> set (map p_id (plants (fst (identify P E d req)))))"
proof -
  let ?Q = "\<lambda>x. sightings (fst x) = sightings d \<or>
   (\<exists>imageUrl lat lng best refs. env_db_error E PlantsUpsertSecond = None \<and>
      sightings (fst x) = sightings d @ [sightingOf P E d imageUrl lat lng best refs] \<and>
      s_plant_id (sightingOf P E d imageUrl lat lng best refs)
        = snd (upsertPlants (secondPayload P E best refs) (plants (firstUpsert P E d best refs))) \<and>
      s_plant_id (sightingOf P E d imageUrl lat lng best refs) \<in> set (map p_id (plants (fst x))))"
  show "?Q (identify P E d req)"
  proof (rule identify_rule [where Q = ?Q])
    show "?Q (d, rsp)" for rsp by simp
  next
    fix imageUrl lat lng best refs
    show "?Q (persist P E d imageUrl lat lng best refs)"
    proof (cases "rsp_status (snd (persist P E d imageUrl lat lng best refs)) = 200")
      case True
      have e: "env_db_error E PlantsUpsertSecond = None"
        using True by (simp add: persist_status)
      obtain r where r: "r \<in> set (plants (afterUpserts P E d best refs))"
        "p_id r = upsertedId P E d best refs"
        using afterUpserts_returned [of P E d best refs] by blast
      then have m: "upsertedId P E d best refs \<in> set (map p_id (plants (afterUpserts P E d best refs)))"
        by (metis image_eqI set_map)
      have "env_db_error E PlantsUpsertSecond = None \<and>
        sightings (fst (persist P E d imageUrl lat lng best refs))
          = sightings d @ [sightingOf P E d imageUrl lat lng best refs] \<and>
        s_plant_id (sightingOf P E d imageUrl lat lng best refs)
          = snd (upsertPlants (secondPayload P E best refs) (plants (firstUpsert P E d best refs))) \<and>
        s_plant_id (sightingOf P E d imageUrl lat lng best refs)
          \<in> set (map p_id (plants (fst (persist P E d imageUrl lat lng best refs))))"
        unfolding persist_success [OF True] sightingOf_plant_id
        using e m by (simp add: upsertedId_def)
      then show ?thesis by blast
    next
      case False
      from persist_failure [OF False] show ?thesis
        by (auto simp: firstUpsert_sightings afterUpserts_sightings)
    qed
  qed
qed

lemma identify_fk:
  assumes "\<forall>s\<in>set (sightings d). s_plant_id s \<in> set (map p_id (plants d))"
  shows "\<forall>s\<in>set (sightings (fst (identify P E d req))).
           s_plant_id s \<in> set (map p_id (plants (fst (identify P E d req))))"
proof
  fix s assume s: "s \<in> set (sightings (fst (identify P E d req)))"
  from identify_sightings [of P E d req]
  show "s_plant_id s \<in> set (map p_id (plants (fst (identify P E d req))))"
  proof
    assume "sightings (fst (identify P E d req)) = sightings d"
    with s assms have "s_plant_id s \<in> set (map p_id (plants d))" by simp
    with identify_ids_kept [of d P E req] show ?thesis by blast
  next
    assume "\<exists>imageUrl lat lng best refs. env_db_error E PlantsUpsertSecond = None \<and>
      sightings (fst (identify P E d req)) = sightings d @ [sightingOf P E d imageUrl lat lng best refs] \<and>
      s_plant_id (sightingOf P E d imageUrl lat lng best refs)
        = snd (upsertPlants (secondPayload P E best refs) (plants (firstUpsert P E d best refs))) \<and>
      s_plant_id (sightingOf P E d imageUrl lat lng best refs)
        \<in> set (map p_id (plants (fst (identify P E d req))))"
    then obtain row where row: "sightings (fst (identify P E d req)) = sightings d @ [row]"
      "s_plant_id row \<in> set (map p_id (plants (fst (identify P E d req))))" by blast
    from s row(1) have "s \<in> set (sightings d) \<or> s = row" by auto
    then show ?thesis
    proof
      assume "s \<in> set (sightings d)"
      with assms have "s_plant_id s \<in> set (map p_id (plants d))" by simp
      with identify_ids_kept [of d P E req] show ?thesis by blast
    next
      assume "s = row"
      with row(2) show ?thesis by simp
    qed
  qed
qed

lemma identifyAll_fk:
  "\<forall>s\<in>set (sightings d). s_plant_id s \<in> set (map p_id (plants d)) \<Longrightarrow>
   \<forall>s\<in>set (sightings (identifyAll P d runs)).
      s_plant_id s \<in> set (map p_id (plants (identifyAll P d runs)))"
proof (induction runs arbitrary: d)
  case Nil
  then show ?case by simp
next
  case (Cons r rs)
  from Cons.IH [OF identify_fk [OF Cons.prems, of P "fst r" "snd r"]]
  show ?case by simp
qed

section \<open>One row per key\<close>

lemma one_row_per_key:
  assumes "distinct (map p_key (plants d))"
  shows "distinct (map p_key (plants (identifyAll P d runs))) \<and>
    (\<forall>k \<in> set (map p_key (plants d)).
        length (filter (\<lambda>y. p_key y = k) (plants (identifyAll P d runs))) = 1) \<and>
    (rsp_status (snd (identify P E d req)) = 200 \<longrightarrow>
      (\<exists>r. filter (\<lambda>y. JStr (p_key y) = getProp (rsp_body (snd (identify P E d req))) ''key'')
               (plants (fst (identify P E d req))) = [r] \<and>
        p_common_name r = getProp (rsp_body (snd (identify P E d req))) ''commonName'' \<and>
        p_scientific_name r = getProp (rsp_body (snd (identify P E d req))) ''scientificName'' \<and>
        p_family r = getProp (rsp_body (snd (identify P E d req))) ''family'' \<and>
        p_genus r = getProp (rsp_body (snd (identify P E d req))) ''genus'' \<and>
        p_reference_images r = getProp (rsp_body (snd (identify P E d req))) ''referenceImages'' \<and>
        (getProp (rsp_body (snd (identify P E d req))) ''rawTop'' \<noteq> JUndefined \<longrightarrow>
           p_plant_details r = getProp (rsp_body (snd (identify P E d req))) ''rawTop'') \<and>
        filter (\<lambda>y. JStr (p_key y) \<noteq> getProp (rsp_body (snd (identify P E d req))) ''key'')
               (plants (fst (identify P E d req)))
         = filter (\<lambda>y. JStr (p_key y) \<noteq> getProp (rsp_body (snd (identify P E d req))) ''key'')
               (plants d)))"
  using identifyAll_keys [OF assms, of P runs] identifyAll_one_row [OF assms, of _ P runs]
    identify_written [OF assms, of P E req]
  by blast

section \<open>Requests that reach PlantNet\<close>




lemma identify_checked:
  assumes "req_method req = js ''POST''"
    and "req_body req = Some body"
    and "getProp body ''imageUrl'' = JStr imageUrl"
    and "imageUrl \<noteq> []"
    and "env_plantnet_key E = Some apiKey"
    and "apiKey \<noteq> []"
  shows "identify P E d req = checkOrgan P E d apiKey imageUrl body"
  using assms by (simp add: identify_def js_def)

lemma invalidOrgan_eq:
  "invalidOrgan = \<lparr>rsp_status = 400,
     rsp_body = errorBody ''Invalid organ type. Must be one of: leaf, flower, fruit, bark, auto''\<rparr>"
  by (simp add: invalidOrgan_def errorBody_def validOrgans_def js_def)

lemma tryBlock_reached:
  assumes "req_method req = js ''POST''"
    and "req_body req = Some body"
    and "getProp body ''imageUrl'' = JStr imageUrl"
    and "imageUrl \<noteq> []"
    and "env_plantnet_key E = Some apiKey"
    and "apiKey \<noteq> []"
    and "organIsValid (orElse (getProp body ''organ'') (JStr (js ''leaf'')))"
  shows "identify P E d req =
           tryBlock P E d apiKey imageUrl (numberOrNull (getProp body ''lat''))
             (numberOrNull (getProp body ''lng'')) (orElse (getProp body ''organ'') (JStr (js ''leaf'')))"
  unfolding identify_checked [OF assms(1-6)] using assms(7) by (simp add: checkOrgan_def)

section \<open>The code's slug and the specification's\<close>

lemma rev_dropWhile_rev:
  "rev (dropWhile Q (rev t)) = take (length t - length (takeWhile Q (rev t))) t"
proof -
  have "dropWhile Q (rev t) = drop (length (takeWhile Q (rev t))) (rev t)"
    by (rule dropWhile_eq_drop)
  then have "rev (dropWhile Q (rev t)) = rev (drop (length (takeWhile Q (rev t))) (rev t))"
    by simp
  also have "\<dots> = take (length t - length (takeWhile Q (rev t))) t"
    by (simp add: rev_drop)
  finally show ?thesis .
qed

lemma trim_specTrimmed: "trim s = specTrimmed s"
  unfolding trim_def specTrimmed_def Let_def by (rule rev_dropWhile_rev)

lemma hyphenateSpaces_specRuns_both:
  "hyphenateSpaces s = specRuns False s \<and>
   hyphenateSpaces (dropWhile isWhiteSpace s) = specRuns True s"
  by (induction s) simp_all

lemma hyphenateSpaces_specRuns: "hyphenateSpaces s = specRuns False s"
  using hyphenateSpaces_specRuns_both [of s] by simp

lemma specAlphabet_units:
  "set specAlphabet = {c. (97 \<le> c \<and> c \<le> 122) \<or> (48 \<le> c \<and> c \<le> 57) \<or> c = 45}"
  apply (simp add: specAlphabet_def js_def)
  apply (rule set_eqI)
  apply simp
  apply arith
  done

lemma isSlugUnit_specAlphabet: "isSlugUnit c \<longleftrightarrow> c \<in> set specAlphabet"
  by (simp add: specAlphabet_units isSlugUnit_def)

lemma dropNonSlug_specKept: "dropNonSlug s = specKept s"
proof -
  have "isSlugUnit = (\<lambda>c. c \<in> set specAlphabet)"
    by (rule ext) (rule isSlugUnit_specAlphabet)
  then show ?thesis by (simp add: dropNonSlug_def specKept_def)
qed

lemma slugifyKey_specSlug: "slugifyKey P s = specSlug P s"
  by (simp add: slugifyKey_def specSlug_def trim_specTrimmed hyphenateSpaces_specRuns
      dropNonSlug_specKept)

lemma plantKeyOf_specSlug:
  "plantKeyOf P best =
     specSlug P (toStringJS P
       (if truthy (getProp (getProp best ''species'') ''scientificNameWithoutAuthor'')
        then getProp (getProp best ''species'') ''scientificNameWithoutAuthor''
        else if truthy (getProp (getProp best ''species'') ''scientificName'')
        then getProp (getProp best ''species'') ''scientificName''
        else if truthy (index0 (getProp (getProp best ''species'') ''commonNames''))
        then index0 (getProp (getProp best ''species'') ''commonNames'')
        else JStr (js ''Unknown'')))"
  unfolding plantKeyOf_source slugifyKey_specSlug [symmetric] slugifyKey_def ..

lemma exHybrid_specSlug:
  "specSlug exPlatform (js '' Quercus '' @ [215] @ js ''  hispanica Lam. '')
     = js ''quercus--hispanica-lam''"
  by (simp add: specSlug_def specKept_def specTrimmed_def specAlphabet_def toLowerCase_def
      isWhiteSpace_def exPlatform_def js_def)

lemma exHybrid_answered:
  "rsp_status (snd (identify exPlatform exHybridEnv emptyDb (exRequest []))) = 200"
  by (simp add: run_defs exHybridEnv_def exHybridRaw_def exHybridBest_def)

section \<open>The handler with reads that may never settle\<close>

lemma callPlantNetAwaited_agrees:
  "callPlantNetAwaited P E d apiKey imageUrl lat lng organ imgRes imgBlob = None \<or>
   callPlantNetAwaited P E d apiKey imageUrl lat lng organ imgRes imgBlob
     = Some (callPlantNet P E d apiKey imageUrl lat lng organ imgRes imgBlob)"
  by (simp add: callPlantNetAwaited_def callPlantNet_def
      split: settled.splits fetch_outcome.splits)

lemma tryBlockAwaited_agrees:
  "tryBlockAwaited P E d apiKey imageUrl lat lng organ = None \<or>
   tryBlockAwaited P E d apiKey imageUrl lat lng organ
     = Some (tryBlock P E d apiKey imageUrl lat lng organ)"
  using callPlantNetAwaited_agrees [of P E d apiKey imageUrl lat lng organ]
  by (simp add: tryBlockAwaited_def tryBlock_def
      split: settled.splits fetch_outcome.splits sum.splits)

lemma identifyAwaited_agrees:
  "identifyAwaited P E d req = None \<or> identifyAwaited P E d req = Some (identify P E d req)"
  using tryBlockAwaited_agrees [of P E d]
  by (simp add: identifyAwaited_def identify_def checkOrganAwaited_def checkOrgan_def Let_def
      split: option.splits json.splits)

lemma identifyAwaited_settling:
  assumes "\<And>u t r. env_image_fetch E u = After t (Responded r) \<Longrightarrow> res_body_arrives r"
    and "\<And>f t r. env_plantnet_fetch E f = After t (Responded r) \<Longrightarrow> res_body_arrives r"
  shows "identifyAwaited P E d req = Some (identify P E d req)"
proof -
  have c: "callPlantNetAwaited P E d apiKey imageUrl lat lng organ imgRes imgBlob
      = Some (callPlantNet P E d apiKey imageUrl lat lng organ imgRes imgBlob)"
    for apiKey imageUrl lat lng organ imgRes imgBlob
    using assms(2)
    by (auto simp: callPlantNetAwaited_def callPlantNet_def withTimeout_def
        split: arrival.splits fetch_outcome.splits)
  have t: "tryBlockAwaited P E d apiKey imageUrl lat lng organ
      = Some (tryBlock P E d apiKey imageUrl lat lng organ)" for apiKey imageUrl lat lng organ
    using assms(1)
    by (auto simp: tryBlockAwaited_def tryBlock_def withTimeout_def c
        split: arrival.splits fetch_outcome.splits sum.splits)
  show ?thesis
    by (simp add: identifyAwaited_def identify_def checkOrganAwaited_def checkOrgan_def Let_def t
        split: option.splits json.splits)
qed

lemma tryBlockAwaited_reached:
  assumes "req_method req = js ''POST''"
    and "req_body req = Some body"
    and "getProp body ''imageUrl'' = JStr imageUrl"
    and "imageUrl \<noteq> []"
    and "env_plantnet_key E = Some apiKey"
    and "apiKey \<noteq> []"
    and "organIsValid (orElse (getProp body ''organ'') (JStr (js ''leaf'')))"
  shows "identifyAwaited P E d req =
           tryBlockAwaited P E d apiKey imageUrl (numberOrNull (getProp body ''lat''))
             (numberOrNull (getProp body ''lng''))
             (orElse (getProp body ''organ'') (JStr (js ''leaf'')))"
  using assms by (simp add: identifyAwaited_def checkOrganAwaited_def js_def)

lemmas awaited_defs = identifyAwaited_def checkOrganAwaited_def tryBlockAwaited_def
  callPlantNetAwaited_def exStalledImage_def exStalledAnswer_def

section \<open>The view on ordered rows\<close>

lemma orderKey_le:
  "orderKey collate a \<le> orderKey collate b \<longleftrightarrow>
     collate (orEmpty (t_scientific_name a)) < collate (orEmpty (t_scientific_name b)) \<or>
     (collate (orEmpty (t_scientific_name a)) = collate (orEmpty (t_scientific_name b)) \<and>
      t_created_at b \<le> t_created_at a)"
  by (auto simp: orderKey_def less_eq_prod_def)

lemma same_name:
  assumes "inj collate" and "t_scientific_name a \<noteq> None" and "t_scientific_name b \<noteq> None"
  shows "collate (orEmpty (t_scientific_name a)) = collate (orEmpty (t_scientific_name b))
         \<longleftrightarrow> t_scientific_name a = t_scientific_name b"
  using assms by (auto simp: orEmpty_def inj_eq split: option.splits)

lemma sorted_drop_second:
  "sorted (map f (a # b # rs)) \<Longrightarrow> sorted (map f (a # rs))"
  by auto

lemma sorted_head_le:
  "sorted (map f (a # rs)) \<Longrightarrow> x \<in> set rs \<Longrightarrow> f a \<le> f x"
  by auto

lemma distinctOn_subset: "set (distinctOn xs) \<subseteq> set xs"
  by (induction xs rule: distinctOn.induct) auto

lemma distinctOn_names:
  "t_scientific_name ` set (distinctOn xs) = t_scientific_name ` set xs"
  by (induction xs rule: distinctOn.induct) auto

lemma sandwich:
  assumes inj: "inj collate"
    and srt: "sorted (map (orderKey collate) (a # b # rs))"
    and nn: "\<forall>r\<in>set (a # b # rs). t_scientific_name r \<noteq> None"
    and x: "x \<in> set rs" and same: "t_scientific_name x = t_scientific_name a"
  shows "t_scientific_name b = t_scientific_name a"
proof -
  let ?c = "\<lambda>r. collate (orEmpty (t_scientific_name r))"
  have ab: "orderKey collate a \<le> orderKey collate b" using srt by simp
  have bx: "orderKey collate b \<le> orderKey collate x" using srt x by auto
  from ab have 1: "?c a \<le> ?c b" unfolding orderKey_le by auto
  from bx have 2: "?c b \<le> ?c x" unfolding orderKey_le by auto
  from same have "?c x = ?c a" by simp
  with 1 2 have "?c b = ?c a" by auto
  then show ?thesis using same_name [OF inj, of b a] nn by auto
qed

lemma distinctOn_distinct:
  assumes inj: "inj collate"
  shows "sorted (map (orderKey collate) xs) \<Longrightarrow> \<forall>r\<in>set xs. t_scientific_name r \<noteq> None \<Longrightarrow>
         distinct (map t_scientific_name (distinctOn xs))"
proof (induction xs rule: distinctOn.induct)
  case 1
  show ?case by simp
next
  case (2 r)
  show ?case by simp
next
  case (3 a b rs)
  show ?case
  proof (cases "t_scientific_name a = t_scientific_name b")
    case True
    have "distinct (map t_scientific_name (distinctOn (a # rs)))"
      using 3(1) [OF True sorted_drop_second [OF 3(3)]] 3(4) by simp
    with True show ?thesis by simp
  next
    case False
    have d: "distinct (map t_scientific_name (distinctOn (b # rs)))"
      using 3(2) [OF False] 3(3) 3(4) by simp
    have "t_scientific_name a \<notin> t_scientific_name ` set (distinctOn (b # rs))"
    proof
      assume "t_scientific_name a \<in> t_scientific_name ` set (distinctOn (b # rs))"
      then have "t_scientific_name a \<in> t_scientific_name ` set (b # rs)"
        by (simp only: distinctOn_names)
      then obtain x where x: "x \<in> set (b # rs)" "t_scientific_name x = t_scientific_name a"
        by (metis imageE)
      with False have "x \<in> set rs" by auto
      from sandwich [OF inj 3(3) 3(4) this x(2)] False show False by simp
    qed
    with d False show ?thesis by simp
  qed
qed

lemma distinctOn_latest:
  assumes inj: "inj collate"
  shows "sorted (map (orderKey collate) xs) \<Longrightarrow> \<forall>r\<in>set xs. t_scientific_name r \<noteq> None \<Longrightarrow>
         \<forall>r\<in>set (distinctOn xs). \<forall>r'\<in>set xs.
            t_scientific_name r' = t_scientific_name r \<longrightarrow> t_created_at r' \<le> t_created_at r"
proof (induction xs rule: distinctOn.induct)
  case 1
  show ?case by simp
next
  case (2 r)
  show ?case by simp
next
  case (3 a b rs)
  let ?c = "\<lambda>r. collate (orEmpty (t_scientific_name r))"
  have later: "t_created_at x \<le> t_created_at a"
    if "x \<in> set (b # rs)" "t_scientific_name x = t_scientific_name a" for x
  proof -
    have "orderKey collate a \<le> orderKey collate x"
      using sorted_head_le [OF 3(3) that(1)] .
    then show ?thesis unfolding orderKey_le using that(2) by auto
  qed
  show ?case
  proof (cases "t_scientific_name a = t_scientific_name b")
    case True
    have ih: "\<forall>r\<in>set (distinctOn (a # rs)). \<forall>r'\<in>set (a # rs).
            t_scientific_name r' = t_scientific_name r \<longrightarrow> t_created_at r' \<le> t_created_at r"
      using 3(1) [OF True sorted_drop_second [OF 3(3)]] 3(4) by simp
    have "t_created_at r' \<le> t_created_at r"
      if r: "r \<in> set (distinctOn (a # rs))" and r': "r' \<in> set (a # b # rs)"
        and same: "t_scientific_name r' = t_scientific_name r" for r r'
    proof (cases "r' = b")
      case False
      with r' have "r' \<in> set (a # rs)" by auto
      with ih r same show ?thesis by blast
    next
      case rb: True
      have ka: "t_scientific_name a = t_scientific_name r" using rb same True by simp
      have "a \<in> set (a # rs)" by simp
      with ih r ka have 1: "t_created_at a \<le> t_created_at r" by blast
      have 2: "t_created_at b \<le> t_created_at a" using later [of b] True by simp
      from 1 2 rb show ?thesis by simp
    qed
    with True show ?thesis by simp
  next
    case False
    have ih: "\<forall>r\<in>set (distinctOn (b # rs)). \<forall>r'\<in>set (b # rs).
            t_scientific_name r' = t_scientific_name r \<longrightarrow> t_created_at r' \<le> t_created_at r"
      using 3(2) [OF False] 3(3) 3(4) by simp
    have "t_created_at r' \<le> t_created_at r"
      if r: "r \<in> set (a # distinctOn (b # rs))" and r': "r' \<in> set (a # b # rs)"
        and same: "t_scientific_name r' = t_scientific_name r" for r r'
    proof (cases "r = a")
      case True
      show ?thesis
      proof (cases "r' = a")
        case True
        with \<open>r = a\<close> show ?thesis by simp
      next
        case False
        with r' have "r' \<in> set (b # rs)" by auto
        from later [OF this] same \<open>r = a\<close> show ?thesis by simp
      qed
    next
      case ra: False
      with r have rin: "r \<in> set (distinctOn (b # rs))" by simp
      then have rin': "r \<in> set (b # rs)" using distinctOn_subset by blast
      show ?thesis
      proof (cases "r' = a")
        case True
        have "t_scientific_name r = t_scientific_name a" using same True by simp
        moreover have "r \<in> set rs"
          using rin' calculation False by auto
        ultimately have "t_scientific_name b = t_scientific_name a"
          using sandwich [OF inj 3(3) 3(4)] by blast
        with False show ?thesis by simp
      next
        case False
        with r' have "r' \<in> set (b # rs)" by auto
        with ih rin same show ?thesis by blast
      qed
    qed
    with False show ?thesis by simp
  qed
qed

lemma exTrees_view:
  "map v_id (plant_log (\<lambda>s. s) exTrees) = [2, 3] \<and>
   map v_last_seen (plant_log (\<lambda>s. s) exTrees) = [20, 30]"
  by (simp add: plant_log_def plantLogFrom_def named_def orderKey_def orEmpty_def exTrees_def
      exTree_def selectColumns_def js_def less_eq_prod_def less_prod_def)

section \<open>Writes to \<open>trees\<close>\<close>

lemma insertSighting_trees:
  "trees (fst (insertSighting P E d plantId imageUrl lat lng best refs)) = trees d"
  by (simp add: insertSighting_def split: option.splits)

lemma persist_trees: "trees (fst (persist P E d imageUrl lat lng best refs)) = trees d"
  by (simp add: persist_def insertSighting_trees firstUpsert_trees split: option.splits)

lemma identify_trees: "trees (fst (identify P E d req)) = trees d"
  by (rule identify_rule [where Q = "\<lambda>x. trees (fst x) = trees d"]) (simp_all add: persist_trees)

lemma insertTree_appends:
  "trees (insertTree E d payload) = trees d @ [last (trees (insertTree E d payload))] \<and>
   t_id (last (trees (insertTree E d payload))) \<notin> set (map t_id (trees d))"
  using freshId_fresh [of "map t_id (trees d)"] by (simp add: insertTree_def)

lemma legacyHandler_rule:
  assumes err: "\<And>rsp. Q (d, rsp)"
    and ok: "\<And>imageUrl lat lng raw. Q (store imageUrl lat lng raw)"
  shows "Q (legacyHandler P E d req options store)"
  unfolding legacyHandler_def legacyTry_def
  by (simp add: err ok split: option.splits json.splits settled.splits fetch_outcome.splits sum.splits)

lemma identifyTaxonomy_trees: "appendsAtMostOne d (fst (identifyTaxonomy P E d req))"
  unfolding identifyTaxonomy_def
proof (rule legacyHandler_rule [where Q = "\<lambda>x. appendsAtMostOne d (fst x)"])
  show "appendsAtMostOne d (fst (d, rsp))" for rsp by (simp add: appendsAtMostOne_def)
next
  fix imageUrl lat lng raw
  show "appendsAtMostOne d (fst (storeTaxonomy P E d imageUrl lat lng raw))"
    using insertTree_appends [of E d "taxonomyRow P imageUrl lat lng (bestOf raw)"]
    by (cases "env_db_error E TreesInsert") (auto simp: storeTaxonomy_def appendsAtMostOne_def)
qed

lemma identifyName_trees: "appendsAtMostOne d (fst (identifyName P E d req))"
  unfolding identifyName_def
proof (rule legacyHandler_rule [where Q = "\<lambda>x. appendsAtMostOne d (fst x)"])
  show "appendsAtMostOne d (fst (d, rsp))" for rsp by (simp add: appendsAtMostOne_def)
next
  fix imageUrl lat lng raw
  show "appendsAtMostOne d (fst (storeName E d imageUrl lat lng raw))"
    using insertTree_appends [of E d "nameRow imageUrl lat lng (bestOf raw)"]
    by (cases "env_db_error E TreesInsert") (auto simp: storeName_def appendsAtMostOne_def)
qed

lemma insertEntry_trees: "insertEntry V d k dn nt = Inr (d', r) \<Longrightarrow> trees d' = trees d"
  by (auto simp: insertEntry_def split: option.splits if_splits)

lemma upsertEntry_trees: "upsertEntry V d k dn nt = Inr (d', r) \<Longrightarrow> trees d' = trees d"
  by (auto simp: upsertEntry_def split: option.splits)

lemma load_trees: "trees (fst (load P V d plantKey st)) = trees d"
  by (auto simp: load_def Let_def split: sum.splits option.splits dest: insertEntry_trees)

lemma save_trees: "trees (fst (save V d plantKey st)) = trees d"
  by (auto simp: save_def Let_def split: sum.splits dest: upsertEntry_trees)

lemma step_trees: "appendsAtMostOne d (step P d a)"
proof (cases a)
  case (Identify E req)
  then show ?thesis by (simp add: appendsAtMostOne_def identify_trees)
next
  case (IdentifyTaxonomy E req)
  then show ?thesis by (simp add: identifyTaxonomy_trees)
next
  case (IdentifyName E req)
  then show ?thesis by (simp add: identifyName_trees)
next
  case (ViewLog n)
  then show ?thesis by (simp add: appendsAtMostOne_def)
next
  case (LoadPlant V k st)
  then show ?thesis by (simp add: appendsAtMostOne_def load_trees)
next
  case (SavePlant V k st)
  then show ?thesis by (simp add: appendsAtMostOne_def save_trees)
qed

lemma run_trees: "prefix (trees d) (trees (run P d as))"
proof (induction as arbitrary: d)
  case Nil
  show ?case by simp
next
  case (Cons a as)
  have "prefix (trees d) (trees (step P d a))"
    using step_trees [of d P a] by (auto simp: appendsAtMostOne_def)
  also have "prefix (trees (step P d a)) (trees (run P (step P d a) as))"
    by (rule Cons.IH)
  finally show ?case by simp
qed

section \<open>Loading and saving the plant detail page\<close>

lemma maybeSingle_none: "maybeSingle rows = Inr None \<longleftrightarrow> rows = []"
  by (auto simp: maybeSingle_def split: list.splits)

lemma selectEntry_absent:
  assumes "pv_error V TreeEntriesSelect = None" and "plantKey \<notin> set (map e_key (tree_entries d))"
  shows "selectEntry V d plantKey = Inr None"
proof -
  have "filter (\<lambda>r. e_key r = plantKey) (tree_entries d) = []"
    unfolding filter_empty_conv using assms(2) by (metis image_eqI set_map)
  with assms(1) show ?thesis by (simp add: selectEntry_def maybeSingle_def)
qed

lemma selectEntry_present:
  assumes "plantKey \<in> set (map e_key (tree_entries d))"
  shows "selectEntry V d plantKey \<noteq> Inr None"
proof -
  have "filter (\<lambda>r. e_key r = plantKey) (tree_entries d) \<noteq> []"
    unfolding filter_empty_conv using assms by auto
  then show ?thesis
    by (auto simp: selectEntry_def maybeSingle_none split: option.splits)
qed

lemma load_creates:
  assumes "plantKey \<noteq> []"
    and "\<not> pv_cancelled_after_log V"
    and "pv_log V = Inr logRow"
    and "\<not> pv_cancelled_after_entry V"
    and "pv_error V TreeEntriesSelect = None"
    and "pv_error V TreeEntriesInsert = None"
    and "plantKey \<notin> set (map e_key (tree_entries d))"
  shows "tree_entries (fst (load P V d plantKey st)) = tree_entries d @
           [\<lparr>e_key = plantKey,
             e_display_name = (case logRow of None \<Rightarrow> None | Some l \<Rightarrow> lg_name l),
             e_notes = None, e_created_at = pv_db_now V, e_updated_at = JNull\<rparr>]"
  using assms selectEntry_absent [OF assms(5) assms(7)]
  by (simp add: load_def Let_def insertEntry_def logName_def)

lemma load_existing:
  assumes "plantKey \<in> set (map e_key (tree_entries d))"
  shows "tree_entries (fst (load P V d plantKey st)) = tree_entries d"
  using selectEntry_present [OF assms, of V]
  by (auto simp: load_def Let_def split: sum.splits option.splits)

lemma find_entry_none: "find (\<lambda>r. e_key r = k) rows = None \<longleftrightarrow> k \<notin> set (map e_key rows)"
  by (induction rows) auto

lemma find_entry_filter:
  "distinct (map e_key rows) \<Longrightarrow> find (\<lambda>r. e_key r = k) rows = Some r0 \<Longrightarrow>
   filter (\<lambda>r. e_key r = k) rows = [r0]"
proof (induction rows)
  case Nil
  then show ?case by simp
next
  case (Cons a rows)
  show ?case
  proof (cases "e_key a = k")
    case True
    with Cons.prems have "k \<notin> e_key ` set rows" "a = r0" by auto
    then have "filter (\<lambda>r. e_key r = k) rows = []"
      unfolding filter_empty_conv by (metis image_eqI)
    with True \<open>a = r0\<close> show ?thesis by simp
  next
    case False
    with Cons show ?thesis by simp
  qed
qed

lemma filter_entry_update:
  "filter (\<lambda>r. e_key r = k) (map (\<lambda>r. if e_key r = k then f r else r) rows)
     = map f (filter (\<lambda>r. e_key r = k) rows)"
  if "\<And>r. e_key (f r) = e_key r"
  using that by (induction rows) auto

lemma filter_entry_others:
  "filter (\<lambda>r. e_key r \<noteq> k) (map (\<lambda>r. if e_key r = k then f r else r) rows)
     = filter (\<lambda>r. e_key r \<noteq> k) rows"
  if "\<And>r. e_key (f r) = e_key r"
  using that by (induction rows) auto

lemma upsertEntry_result:
  assumes dk: "distinct (map e_key (tree_entries d))"
    and ok: "pv_error V TreeEntriesUpsert = None"
  shows "\<exists>d' u r. upsertEntry V d k dn nt = Inr (d', u) \<and>
     filter (\<lambda>r. e_key r = k) (tree_entries d') = [r] \<and>
     e_display_name r = dn \<and> e_notes r = nt \<and>
     filter (\<lambda>r. e_key r \<noteq> k) (tree_entries d') = filter (\<lambda>r. e_key r \<noteq> k) (tree_entries d) \<and>
     distinct (map e_key (tree_entries d'))"
proof (cases "find (\<lambda>r. e_key r = k) (tree_entries d)")
  case None
  then have n: "k \<notin> set (map e_key (tree_entries d))"
    using find_entry_none [of k "tree_entries d"] by blast
  then have "filter (\<lambda>r. e_key r = k) (tree_entries d) = []"
    unfolding filter_empty_conv by (metis image_eqI set_map)
  with None ok dk n show ?thesis
    by (simp add: upsertEntry_def)
next
  case (Some r0)
  let ?f = "\<lambda>r. r\<lparr>e_display_name := dn, e_notes := nt, e_updated_at := JStr (pv_js_now V)\<rparr>"
  have fk: "e_key (?f r) = e_key r" for r by simp
  have keys: "map e_key (map (\<lambda>r. if e_key r = k then ?f r else r) (tree_entries d))
        = map e_key (tree_entries d)"
    by (induction "tree_entries d") auto
  have dk': "distinct (map e_key (map (\<lambda>r. if e_key r = k then ?f r else r) (tree_entries d)))"
    unfolding keys by (rule dk)
  from find_entry_filter [OF dk Some] Some ok dk' show ?thesis
    by (simp add: upsertEntry_def filter_entry_update [of ?f, OF fk]
        filter_entry_others [of ?f, OF fk])
qed

lemma save_upserts:
  assumes dk: "distinct (map e_key (tree_entries d))"
    and ok: "pv_error V TreeEntriesUpsert = None"
  shows "(\<exists>r. filter (\<lambda>r. e_key r = plantKey) (tree_entries (fst (save V d plantKey st))) = [r] \<and>
     e_display_name r = (if trim (st_displayName st) = [] then None else Some (trim (st_displayName st))) \<and>
     e_notes r = (if trim (st_notes st) = [] then None else Some (trim (st_notes st)))) \<and>
    filter (\<lambda>r. e_key r \<noteq> plantKey) (tree_entries (fst (save V d plantKey st)))
          = filter (\<lambda>r. e_key r \<noteq> plantKey) (tree_entries d) \<and>
    distinct (map e_key (tree_entries (fst (save V d plantKey st))))"
proof -
  have t: "trimmedOrNull s = (if trim s = [] then None else Some (trim s))" for s
    by (simp add: trimmedOrNull_def)
  from upsertEntry_result [OF dk ok, of plantKey "trimmedOrNull (st_displayName st)"
      "trimmedOrNull (st_notes st)"]
  obtain d' u r where u: "upsertEntry V d plantKey (trimmedOrNull (st_displayName st))
        (trimmedOrNull (st_notes st)) = Inr (d', u)"
    and r: "filter (\<lambda>r. e_key r = plantKey) (tree_entries d') = [r]"
      "e_display_name r = trimmedOrNull (st_displayName st)"
      "e_notes r = trimmedOrNull (st_notes st)"
      "filter (\<lambda>r. e_key r \<noteq> plantKey) (tree_entries d')
         = filter (\<lambda>r. e_key r \<noteq> plantKey) (tree_entries d)"
      "distinct (map e_key (tree_entries d'))"
    by blast
  have "fst (save V d plantKey st) = d'"
    using u by (simp add: save_def Let_def)
  with r show ?thesis by (simp add: t)
qed

section \<open>The claims\<close>

text \<open>
  C1. For every identification (a request the handler answers with 200) the plant key is the
  slug of the identified name: the source string is \<open>scientificNameWithoutAuthor\<close> of
  the best match when it is truthy, else \<open>scientificName\<close>, else the first common name,
  else \<open>"Unknown"\<close>; the key is that string (through \<open>String\<close>) lower-cased, trimmed,
  with every run of white space replaced by a hyphen and every unit outside \<open>[a-z0-9-]\<close>
  removed, as the specification words it (\<open>specSlug\<close>). The \<open>plants\<close> row the new sighting
  refers to has this key, and the same key is the member \<open>key\<close> of the response. The best
  match is the first result of the answer PlantNet gave within the time limit.
\<close>

theorem plant_key_is_slug_of_identified_name:
  assumes "rsp_status (snd (identify P E d req)) = 200"
  shows "\<exists>form t idRes. env_plantnet_fetch E form = After t (Responded idRes) \<and> t < 30000 \<and>
     (\<exists>r \<in> set (plants (fst (identify P E d req))).
        getProp (rsp_body (snd (identify P E d req))) ''key'' = JStr (p_key r) \<and>
        (\<exists>s. sightings (fst (identify P E d req)) = sightings d @ [s] \<and> s_plant_id s = p_id r) \<and>
        p_key r = specSlug P (toStringJS P
          (if truthy (getProp (getProp (bestOf (rawOf idRes)) ''species'') ''scientificNameWithoutAuthor'')
           then getProp (getProp (bestOf (rawOf idRes)) ''species'') ''scientificNameWithoutAuthor''
           else if truthy (getProp (getProp (bestOf (rawOf idRes)) ''species'') ''scientificName'')
           then getProp (getProp (bestOf (rawOf idRes)) ''species'') ''scientificName''
           else if truthy (index0 (getProp (getProp (bestOf (rawOf idRes)) ''species'') ''commonNames''))
           then index0 (getProp (getProp (bestOf (rawOf idRes)) ''species'') ''commonNames'')
           else JStr (js ''Unknown''))))"
proof -
  let ?src = "\<lambda>best. (if truthy (getProp (getProp best ''species'') ''scientificNameWithoutAuthor'')
           then getProp (getProp best ''species'') ''scientificNameWithoutAuthor''
           else if truthy (getProp (getProp best ''species'') ''scientificName'')
           then getProp (getProp best ''species'') ''scientificName''
           else if truthy (index0 (getProp (getProp best ''species'') ''commonNames''))
           then index0 (getProp (getProp best ''species'') ''commonNames'')
           else JStr (js ''Unknown''))"
  let ?Q = "\<lambda>x. rsp_status (snd x) = 200 \<longrightarrow>
     (\<exists>form t idRes. env_plantnet_fetch E form = After t (Responded idRes) \<and> t < 30000 \<and>
     (\<exists>r \<in> set (plants (fst x)).
        getProp (rsp_body (snd x)) ''key'' = JStr (p_key r) \<and>
        (\<exists>s. sightings (fst x) = sightings d @ [s] \<and> s_plant_id s = p_id r) \<and>
        p_key r = specSlug P (toStringJS P (?src (bestOf (rawOf idRes))))))"
  have "?Q (identify P E d req)"
  proof (rule identify_rule [where Q = ?Q])
    show "?Q (d, rsp)" if "rsp_status rsp \<noteq> 200" for rsp using that by simp
  next
    fix body imageUrl form t idRes refs
    assume f: "env_plantnet_fetch E form = After t (Responded idRes)" and t: "t < 30000"
    let ?lat = "numberOrNull (getProp body ''lat'')" and ?lng = "numberOrNull (getProp body ''lng'')"
    let ?best = "bestOf (rawOf idRes)"
    show "?Q (persist P E d imageUrl ?lat ?lng ?best refs)"
    proof
      assume ok: "rsp_status (snd (persist P E d imageUrl ?lat ?lng ?best refs)) = 200"
      obtain r where r: "r \<in> set (plants (afterUpserts P E d ?best refs))"
        "p_id r = upsertedId P E d ?best refs" "p_key r = plantKeyOf P ?best"
        using afterUpserts_returned [of P E d ?best refs] by blast
      have k: "p_key r = specSlug P (toStringJS P (?src ?best))"
        unfolding r(3) by (rule plantKeyOf_specSlug)
      show "\<exists>form t idRes. env_plantnet_fetch E form = After t (Responded idRes) \<and> t < 30000 \<and>
        (\<exists>r \<in> set (plants (fst (persist P E d imageUrl ?lat ?lng ?best refs))).
        getProp (rsp_body (snd (persist P E d imageUrl ?lat ?lng ?best refs))) ''key'' = JStr (p_key r) \<and>
        (\<exists>s. sightings (fst (persist P E d imageUrl ?lat ?lng ?best refs)) = sightings d @ [s] \<and> s_plant_id s = p_id r) \<and>
        p_key r = specSlug P (toStringJS P (?src (bestOf (rawOf idRes)))))"
        apply (rule exI [of _ form], rule exI [of _ t], rule exI [of _ idRes])
        apply (simp only: f t simp_thms)
        apply (rule bexI [of _ r])
        unfolding persist_success [OF ok]
        using r k by (simp_all add: successBody_fields sightingOf_plant_id)
    qed
  qed
  with assms show ?thesis by simp
qed

text \<open>
  A photo for which PlantNet names \<open>" Quercus \<times>  hispanica Lam. "\<close>: the white space at the
  ends is gone, the capitals are lower-cased, each run of white space is one hyphen, the
  hybrid sign and the full stop are removed, and the key of the response is
  \<open>quercus--hispanica-lam\<close>.
\<close>

theorem plant_key_is_slug_of_identified_name_witness:
  "rsp_status (snd (identify exPlatform exHybridEnv emptyDb (exRequest []))) = 200 \<and>
   getProp (rsp_body (snd (identify exPlatform exHybridEnv emptyDb (exRequest []))))
     ''key'' = JStr (js ''quercus--hispanica-lam'')"
proof -
  have h: "rsp_status (snd (identify exPlatform exHybridEnv emptyDb (exRequest []))) = 200"
    by (rule exHybrid_answered)
  from plant_key_is_slug_of_identified_name [OF h]
  have "getProp (rsp_body (snd (identify exPlatform exHybridEnv emptyDb (exRequest []))))
          ''key'' = JStr (js ''quercus--hispanica-lam'')"
  proof (elim exE bexE conjE)
    fix form t idRes r
    assume f: "env_plantnet_fetch exHybridEnv form = After t (Responded idRes)"
      and k: "getProp (rsp_body (snd (identify exPlatform exHybridEnv emptyDb (exRequest []))))
          ''key'' = JStr (p_key r)"
      and s: "p_key r = specSlug exPlatform (toStringJS exPlatform
          (if truthy (getProp (getProp (bestOf (rawOf idRes)) ''species'') ''scientificNameWithoutAuthor'')
           then getProp (getProp (bestOf (rawOf idRes)) ''species'') ''scientificNameWithoutAuthor''
           else if truthy (getProp (getProp (bestOf (rawOf idRes)) ''species'') ''scientificName'')
           then getProp (getProp (bestOf (rawOf idRes)) ''species'') ''scientificName''
           else if truthy (index0 (getProp (getProp (bestOf (rawOf idRes)) ''species'') ''commonNames''))
           then index0 (getProp (getProp (bestOf (rawOf idRes)) ''species'') ''commonNames'')
           else JStr (js ''Unknown'')))"
    from f have i: "idRes = exAnswer 200 [] (Some exHybridRaw)"
      by (simp add: exHybridEnv_def exEnv_def exEnvOf_def)
    have n: "getProp (getProp (bestOf (rawOf idRes)) ''species'') ''scientificNameWithoutAuthor''
        = JStr (js '' Quercus '' @ [215] @ js ''  hispanica Lam. '')"
      unfolding i
      by (simp add: rawOf_def bestOf_def exAnswer_def exHybridRaw_def exHybridBest_def js_def)
    have "p_key r = js ''quercus--hispanica-lam''"
      unfolding s n using exHybrid_specSlug by (simp add: js_def)
    with k show ?thesis by simp
  qed
  with h show ?thesis by simp
qed

text \<open>
  C2. Let the rows of the query behind the view be given in an order that the \<open>ORDER BY\<close>
  clause allows: they are the rows of \<open>trees\<close> whose \<open>scientific_name\<close> is not \<open>NULL\<close>, sorted
  by name and then by \<open>created_at\<close> descending. Then the view has exactly one row per distinct
  non-null name; each of its rows is a row of \<open>trees\<close> of that name than which no row of
  the same name is more recent, and its \<open>last_seen\<close> is the \<open>created_at\<close> of that row.
  \<open>plant_log\<close> is the view for one such order.
\<close>

theorem plant_log_latest_per_species:
  assumes inj: "inj collate"
    and srt: "sorted (map (orderKey collate) ordered)"
    and rows: "set ordered = set (named rows)"
  shows "distinct (map v_scientific_name (plantLogFrom ordered)) \<and>
    set (map v_scientific_name (plantLogFrom ordered)) = set (map t_scientific_name rows) - {None} \<and>
    (\<forall>v \<in> set (plantLogFrom ordered). \<exists>r \<in> set rows.
        v = selectColumns r \<and> v_scientific_name v = t_scientific_name r \<and>
        v_last_seen v = t_created_at r \<and>
        (\<forall>r' \<in> set rows. t_scientific_name r' = t_scientific_name r \<longrightarrow>
            t_created_at r' \<le> t_created_at r)) \<and>
    plant_log collate rows = plantLogFrom (sort_key (orderKey collate) (named rows)) \<and>
    sorted (map (orderKey collate) (sort_key (orderKey collate) (named rows))) \<and>
    set (sort_key (orderKey collate) (named rows)) = set (named rows)"
proof -
  have nn: "\<forall>r\<in>set ordered. t_scientific_name r \<noteq> None"
    using rows by (simp add: named_def)
  have cols: "v_scientific_name (selectColumns r) = t_scientific_name r"
    "v_last_seen (selectColumns r) = t_created_at r" for r
    by (simp_all add: selectColumns_def)
  have m: "map v_scientific_name (plantLogFrom ordered) = map t_scientific_name (distinctOn ordered)"
    by (simp add: plantLogFrom_def cols comp_def)
  have 1: "distinct (map v_scientific_name (plantLogFrom ordered))"
    unfolding m by (rule distinctOn_distinct [OF inj srt nn])
  have "set (map t_scientific_name (distinctOn ordered)) = t_scientific_name ` set (named rows)"
    using distinctOn_names [of ordered] rows by simp
  also have "\<dots> = set (map t_scientific_name rows) - {None}"
    by (auto simp: named_def)
  finally have 2: "set (map v_scientific_name (plantLogFrom ordered))
      = set (map t_scientific_name rows) - {None}"
    unfolding m .
  have 3: "\<exists>r \<in> set rows. v = selectColumns r \<and> v_scientific_name v = t_scientific_name r \<and>
        v_last_seen v = t_created_at r \<and>
        (\<forall>r' \<in> set rows. t_scientific_name r' = t_scientific_name r \<longrightarrow>
            t_created_at r' \<le> t_created_at r)"
    if v: "v \<in> set (plantLogFrom ordered)" for v
  proof -
    from v obtain r where r: "r \<in> set (distinctOn ordered)" "v = selectColumns r"
      by (auto simp: plantLogFrom_def)
    then have ro: "r \<in> set ordered" using distinctOn_subset by blast
    then have rr: "r \<in> set rows" "t_scientific_name r \<noteq> None"
      using rows by (simp_all add: named_def)
    have "t_created_at r' \<le> t_created_at r"
      if "r' \<in> set rows" "t_scientific_name r' = t_scientific_name r" for r'
    proof -
      from that rr(2) have "r' \<in> set ordered" using rows by (simp add: named_def)
      with distinctOn_latest [OF inj srt nn] r(1) that(2) show ?thesis by blast
    qed
    with r(2) rr(1) show ?thesis by (auto simp: cols)
  qed
  from 1 2 3 show ?thesis by (simp add: plant_log_def)
qed

text \<open>
  Two oaks, two birches and a row without a name: the view shows the birch seen at 20 and the
  oak seen at 30.
\<close>

theorem plant_log_latest_per_species_witness:
  "map v_id (plant_log (\<lambda>s. s) exTrees) = [2, 3] \<and>
   map v_last_seen (plant_log (\<lambda>s. s) exTrees) = [20, 30] \<and>
   distinct (map v_scientific_name (plant_log (\<lambda>s. s) exTrees)) \<and>
   set (map v_scientific_name (plant_log (\<lambda>s. s) exTrees))
     = set (map t_scientific_name exTrees) - {None}"
proof -
  have i: "inj (\<lambda>s::ustr. s)" by simp
  have s: "sorted (map (orderKey (\<lambda>s. s)) (sort_key (orderKey (\<lambda>s. s)) (named exTrees)))"
    by (rule sorted_sort_key)
  have r: "set (sort_key (orderKey (\<lambda>s. s)) (named exTrees)) = set (named exTrees)"
    by simp
  from plant_log_latest_per_species [OF i s r] exTrees_view
  show ?thesis by simp
qed

text \<open>
  C3. The handler writes \<open>plants\<close> through an upsert on the key, and the table keeps one row
  per key; the claim has the taxonomy, \<open>reference_images\<close> and \<open>plant_details\<close> of that row
  overwritten by the latest result. The code does not overwrite \<open>plant_details\<close> when the
  latest result has no best match. A first request, whose best match has the common name
  "Unknown" and the family Fagaceae, writes the row \<open>unknown\<close>. A second request, for which
  PlantNet returns no result, is answered with 200 under the same key, without a best match
  and with the family \<open>null\<close>. Afterwards there is still one row \<open>unknown\<close>; its family has been
  reset to \<open>null\<close> (\<open>family = \<dots> || null\<close>), and its \<open>plant_details\<close> is still the best match of
  the first request: \<open>plant_details: best\<close> is \<open>undefined\<close>, which \<open>JSON.stringify\<close> leaves out
  of the row that is sent.
\<close>

theorem plant_details_stale_after_empty_result:
  "fst (identify exPlatform (exEnv (exAnswer 200 [] (Some exUnknownRaw))) emptyDb (exRequest []))
     = exUnknownDb \<and>
   map p_family (plants exUnknownDb) = [JStr (js ''Fagaceae'')] \<and>
   map p_plant_details (plants exUnknownDb) = [exUnknownBest] \<and>
   rsp_status (snd (identify exPlatform exEmptyEnv exUnknownDb (exRequest []))) = 200 \<and>
   getProp (rsp_body (snd (identify exPlatform exEmptyEnv exUnknownDb (exRequest [])))) ''key''
     = JStr (js ''unknown'') \<and>
   getProp (rsp_body (snd (identify exPlatform exEmptyEnv exUnknownDb (exRequest [])))) ''family''
     = JNull \<and>
   getProp (rsp_body (snd (identify exPlatform exEmptyEnv exUnknownDb (exRequest [])))) ''rawTop''
     = JUndefined \<and>
   map p_key (plants (fst (identify exPlatform exEmptyEnv exUnknownDb (exRequest []))))
     = [js ''unknown''] \<and>
   map p_family (plants (fst (identify exPlatform exEmptyEnv exUnknownDb (exRequest []))))
     = [JNull] \<and>
   map p_plant_details (plants (fst (identify exPlatform exEmptyEnv exUnknownDb (exRequest []))))
     = [exUnknownBest] \<and>
   exUnknownBest \<noteq> JUndefined \<and> exUnknownBest \<noteq> JNull"
  unfolding exEmpty_on_unknown_eval exUnknownDb_eval
  by (simp add: exEmptyOnUnknown_def exUnknownDb_def exUnknownBest_def js_def)

text \<open>
  C4. If every sighting refers to an existing \<open>plants.id\<close>, this is so after any sequence of
  requests. A request adds no sighting, or exactly one: then the second upsert of \<open>plants\<close>
  was answered without error, the \<open>plant_id\<close> of the new row is the identifier that upsert
  returned, and that identifier is the \<open>id\<close> of a row of \<open>plants\<close>.
\<close>

theorem sightings_reference_plants:
  assumes "\<forall>s\<in>set (sightings d). s_plant_id s \<in> set (map p_id (plants d))"
  shows "(\<forall>s\<in>set (sightings (identifyAll P d runs)).
            s_plant_id s \<in> set (map p_id (plants (identifyAll P d runs)))) \<and>
   (sightings (fst (identify P E d req)) = sightings d \<or>
    (\<exists>imageUrl lat lng best refs. env_db_error E PlantsUpsertSecond = None \<and>
      sightings (fst (identify P E d req)) = sightings d @ [sightingOf P E d imageUrl lat lng best refs] \<and>
      s_plant_id (sightingOf P E d imageUrl lat lng best refs)
        = snd (upsertPlants (secondPayload P E best refs) (plants (firstUpsert P E d best refs))) \<and>
      s_plant_id (sightingOf P E d imageUrl lat lng best refs)
        \<in> set (map p_id (plants (fst (identify P E d req))))))"
  using identifyAll_fk [OF assms, of P runs] identify_sightings [of P E d req] by blast

text \<open>A table with one plant and one sighting, and one more identification of the same plant.\<close>

theorem sightings_reference_plants_witness:
  "map s_plant_id (sightings exOakDb) = [1] \<and>
   map p_id (plants exOakDb) = [1] \<and>
   map s_plant_id (sightings (identifyAll exPlatform exOakDb [(exOakEnv, exRequest [])])) = [1, 1] \<and>
   s_plant_id (last (sightings (identifyAll exPlatform exOakDb [(exOakEnv, exRequest [])])))
     \<in> set (map p_id (plants (identifyAll exPlatform exOakDb [(exOakEnv, exRequest [])])))"
proof -
  have h1: "\<forall>s\<in>set (sightings exOakDb). s_plant_id s \<in> set (map p_id (plants exOakDb))"
    by (simp add: exOakDb_def)
  have h2: "map s_plant_id (sightings exOakDb) = [1]" "map p_id (plants exOakDb) = [1]"
    by (simp_all add: exOakDb_def)
  have h3: "map s_plant_id (sightings (identifyAll exPlatform exOakDb [(exOakEnv, exRequest [])])) = [1, 1]"
    by (simp add: exOakAgain_eval) (simp add: exOakAgain_def exOakDb_def)
  then have "sightings (identifyAll exPlatform exOakDb [(exOakEnv, exRequest [])]) \<noteq> []"
    by auto
  then have h4: "last (sightings (identifyAll exPlatform exOakDb [(exOakEnv, exRequest [])]))
      \<in> set (sightings (identifyAll exPlatform exOakDb [(exOakEnv, exRequest [])]))"
    by (rule last_in_set)
  from sightings_reference_plants [OF h1, of exPlatform "[(exOakEnv, exRequest [])]" exOakEnv "exRequest []"]
    h2 h3 h4
  show ?thesis by blast
qed

text \<open>
  C5. When the page loads for a non-empty key that has no row in \<open>tree_entries\<close>, the two
  queries before it are answered without error and the effect has not been cancelled, the
  page inserts the row with that key, the name of the log row (or null when there is no log
  row or it has no name) as display name and null notes. When the key has a row, loading
  leaves \<open>tree_entries\<close> as it is. When the user saves and the upsert is answered without
  error, \<open>tree_entries\<close> has exactly one row with the key; its display name and notes are the
  trimmed values of the form, or null where the trimmed value is empty; the rows of the
  other keys are as before and keys stay unique.
\<close>

theorem tree_entries_created_on_view_updated_on_save:
  "(plantKey \<noteq> [] \<and> \<not> pv_cancelled_after_log V \<and> pv_log V = Inr logRow \<and>
    \<not> pv_cancelled_after_entry V \<and> pv_error V TreeEntriesSelect = None \<and>
    pv_error V TreeEntriesInsert = None \<and> plantKey \<notin> set (map e_key (tree_entries d)) \<longrightarrow>
    tree_entries (fst (load P V d plantKey st)) = tree_entries d @
       [\<lparr>e_key = plantKey,
         e_display_name = (case logRow of None \<Rightarrow> None | Some l \<Rightarrow> lg_name l),
         e_notes = None, e_created_at = pv_db_now V, e_updated_at = JNull\<rparr>]) \<and>
   (plantKey \<in> set (map e_key (tree_entries d)) \<longrightarrow>
    tree_entries (fst (load P V d plantKey st)) = tree_entries d) \<and>
   (distinct (map e_key (tree_entries d)) \<and> pv_error V TreeEntriesUpsert = None \<longrightarrow>
    (\<exists>r. filter (\<lambda>r. e_key r = plantKey) (tree_entries (fst (save V d plantKey st))) = [r] \<and>
       e_display_name r =
         (if trim (st_displayName st) = [] then None else Some (trim (st_displayName st))) \<and>
       e_notes r = (if trim (st_notes st) = [] then None else Some (trim (st_notes st)))) \<and>
    filter (\<lambda>r. e_key r \<noteq> plantKey) (tree_entries (fst (save V d plantKey st)))
      = filter (\<lambda>r. e_key r \<noteq> plantKey) (tree_entries d) \<and>
    distinct (map e_key (tree_entries (fst (save V d plantKey st)))))"
  using load_creates [of plantKey V logRow d P st] load_existing [of plantKey d P V st]
    save_upserts [of d V plantKey st]
  by blast

text \<open>
  The first view of the oak creates its entry, the second view creates nothing, and saving
  the display name "  My oak " with blank notes stores "My oak" and null.
\<close>

theorem tree_entries_created_on_view_updated_on_save_witness:
  "tree_entries (fst (load exPlatform exPageEnv exOakDb (js ''quercus-robur'') initialState))
     = [exEntry] \<and>
   tree_entries (fst (load exPlatform exPageEnv exEntryDb (js ''quercus-robur'') initialState))
     = [exEntry] \<and>
   (\<exists>r. filter (\<lambda>r. e_key r = js ''quercus-robur'')
            (tree_entries (fst (save exPageEnv exEntryDb (js ''quercus-robur'') exEdited))) = [r] \<and>
        e_display_name r = Some (js ''My oak'') \<and> e_notes r = None)"
proof -
  have a: "js ''quercus-robur'' \<noteq> [] \<and> \<not> pv_cancelled_after_log exPageEnv \<and>
    pv_log exPageEnv = Inr (Some \<lparr>lg_key = js ''quercus-robur'', lg_name = Some (js ''English oak''),
                          lg_sightings_count = 1, lg_last_seen = None, lg_thumbnail_url = None\<rparr>) \<and>
    \<not> pv_cancelled_after_entry exPageEnv \<and> pv_error exPageEnv TreeEntriesSelect = None \<and>
    pv_error exPageEnv TreeEntriesInsert = None \<and>
    js ''quercus-robur'' \<notin> set (map e_key (tree_entries exOakDb))"
    by (simp add: exPageEnv_def exOakDb_def js_def)
  have b: "js ''quercus-robur'' \<in> set (map e_key (tree_entries exEntryDb))"
    by (simp add: exEntryDb_def exEntry_def)
  have c: "distinct (map e_key (tree_entries exEntryDb)) \<and> pv_error exPageEnv TreeEntriesUpsert = None"
    by (simp add: exEntryDb_def exPageEnv_def)
  have t: "trim (st_displayName exEdited) = js ''My oak''" "trim (st_notes exEdited) = []"
    by (simp_all add: exEdited_def initialState_def trim_def isWhiteSpace_def js_def)
  note T = tree_entries_created_on_view_updated_on_save
  have 1: "tree_entries (fst (load exPlatform exPageEnv exOakDb (js ''quercus-robur'') initialState))
     = [exEntry]"
    using T [THEN conjunct1, rule_format, OF a, of exPlatform initialState]
    by (simp add: exOakDb_def exEntry_def exPageEnv_def)
  have 2: "tree_entries (fst (load exPlatform exPageEnv exEntryDb (js ''quercus-robur'') initialState))
     = [exEntry]"
    using T [THEN conjunct2, THEN conjunct1, rule_format, OF b, of exPlatform exPageEnv initialState]
    by (simp add: exEntryDb_def)
  have 3: "\<exists>r. filter (\<lambda>r. e_key r = js ''quercus-robur'')
            (tree_entries (fst (save exPageEnv exEntryDb (js ''quercus-robur'') exEdited))) = [r] \<and>
        e_display_name r = Some (js ''My oak'') \<and> e_notes r = None"
    using T [THEN conjunct2, THEN conjunct2, rule_format, OF c, THEN conjunct1,
        of "js ''quercus-robur''" exEdited]
    by (simp add: t js_def)
  from 1 2 3 show ?thesis by (intro conjI)
qed

text \<open>
  C6, as amended. For a POST request with a JSON body, a non-empty string \<open>imageUrl\<close> and
  \<open>PLANTNET_KEY\<close> set: when \<open>organ\<close> is a non-empty string other than leaf, flower, fruit,
  bark and auto, the answer is 400 with the message that lists these five values and nothing
  is written; when \<open>organ\<close> is omitted the handler goes on into its \<open>try\<close> block with the
  organ "leaf".
\<close>

theorem organ_validation:
  assumes "req_method req = js ''POST''"
    and "req_body req = Some body"
    and "getProp body ''imageUrl'' = JStr imageUrl"
    and "imageUrl \<noteq> []"
    and "env_plantnet_key E = Some apiKey"
    and "apiKey \<noteq> []"
  shows "(\<forall>s. getProp body ''organ'' = JStr s \<and> s \<noteq> [] \<and>
            s \<notin> {js ''leaf'', js ''flower'', js ''fruit'', js ''bark'', js ''auto''} \<longrightarrow>
          identify P E d req =
            (d, \<lparr>rsp_status = 400,
                 rsp_body = errorBody
                   ''Invalid organ type. Must be one of: leaf, flower, fruit, bark, auto''\<rparr>)) \<and>
         (getProp body ''organ'' = JUndefined \<longrightarrow>
          identify P E d req =
            tryBlock P E d apiKey imageUrl (numberOrNull (getProp body ''lat''))
              (numberOrNull (getProp body ''lng'')) (JStr (js ''leaf'')))"
  unfolding identify_checked [OF assms] invalidOrgan_eq [symmetric]
  by (auto simp: checkOrgan_def orElse_def validOrgans_def js_def)

text \<open>The organ "root" is rejected; a body without \<open>organ\<close> proceeds with "leaf".\<close>

theorem organ_validation_witness:
  "getProp (exBody [(js ''organ'', JStr (js ''root''))]) ''organ'' = JStr (js ''root'') \<and>
   identify exPlatform exOakEnv emptyDb (exRequest [(js ''organ'', JStr (js ''root''))]) =
     (emptyDb, \<lparr>rsp_status = 400,
         rsp_body = errorBody
           ''Invalid organ type. Must be one of: leaf, flower, fruit, bark, auto''\<rparr>) \<and>
   getProp (exBody []) ''organ'' = JUndefined \<and>
   identify exPlatform exOakEnv emptyDb (exRequest []) =
     tryBlock exPlatform exOakEnv emptyDb (js ''secret'') (js ''https://example.org/oak.jpg'')
       (numberOrNull (getProp (exBody []) ''lat'')) (numberOrNull (getProp (exBody []) ''lng''))
       (JStr (js ''leaf''))"
proof -
  have a: "req_method (exRequest extra) = js ''POST''"
    "req_body (exRequest extra) = Some (exBody extra)"
    "getProp (exBody extra) ''imageUrl'' = JStr (js ''https://example.org/oak.jpg'')"
    "js ''https://example.org/oak.jpg'' \<noteq> []"
    "env_plantnet_key exOakEnv = Some (js ''secret'')"
    "js ''secret'' \<noteq> []" for extra
    by (simp_all add: exRequest_def exBody_def exOakEnv_def exEnv_def exEnvOf_def js_def)
  have r: "getProp (exBody [(js ''organ'', JStr (js ''root''))]) ''organ'' = JStr (js ''root'')"
    "js ''root'' \<noteq> []"
    "js ''root'' \<notin> {js ''leaf'', js ''flower'', js ''fruit'', js ''bark'', js ''auto''}"
    by (simp_all add: exBody_def js_def)
  have u: "getProp (exBody []) ''organ'' = JUndefined"
    by (simp add: exBody_def js_def)
  from organ_validation [OF a, of "[(js ''organ'', JStr (js ''root''))]" exPlatform emptyDb]
    organ_validation [OF a, of "[]" exPlatform emptyDb] r u
  show ?thesis by blast
qed

text \<open>
  As the claim states it, every organ other than leaf, flower, fruit and bark would be
  rejected. The list of the handler has a fifth member: a request with the organ "auto" is
  answered with 200.
\<close>

theorem organ_auto_accepted_counterexample:
  "getProp (exBody [(js ''organ'', JStr (js ''auto''))]) ''organ'' = JStr (js ''auto'') \<and>
   js ''auto'' \<notin> {js ''leaf'', js ''flower'', js ''fruit'', js ''bark''} \<and>
   rsp_status (snd (identify exPlatform exOakEnv emptyDb (exRequest [(js ''organ'', JStr (js ''auto''))])))
     = 200"
  by (simp add: run_defs exOakEnv_def)

text \<open>
  C7, as amended. For a request that passes validation the handler answers, and nothing is
  written, in each of these cases: when the image fetch has not settled when its timer of
  15000 ms fires, the answer is 408 with "Image fetch timeout after 15 seconds"; a non-ok image
  response gives 400; when the image has been read and the PlantNet fetch has not settled when
  its timer of 30000 ms fires, the answer is 408 with "PlantNet API timeout after 30 seconds";
  a non-ok PlantNet response whose body has been read gives 502 with PlantNet's status and, as
  \<open>details\<close>, its body parsed as JSON, or \<open>{}\<close> when the body is not JSON. The statement is
  about the handler with reads that may never settle, and says nothing of a body that never
  arrives.
\<close>

theorem fetch_failures_answered:
  assumes "req_method req = js ''POST''"
    and "req_body req = Some body"
    and "getProp body ''imageUrl'' = JStr imageUrl"
    and "imageUrl \<noteq> []"
    and "env_plantnet_key E = Some apiKey"
    and "apiKey \<noteq> []"
    and "organIsValid (orElse (getProp body ''organ'') (JStr (js ''leaf'')))"
  shows
    "(env_image_fetch E (normalizeImageUrl imageUrl) = Never \<or>
      (\<exists>t r. env_image_fetch E (normalizeImageUrl imageUrl) = After t r \<and> 15000 \<le> t) \<longrightarrow>
      identifyAwaited P E d req =
        Some (d, \<lparr>rsp_status = 408,
                  rsp_body = errorBody ''Image fetch timeout after 15 seconds''\<rparr>)) \<and>
     (\<forall>t imgRes. env_image_fetch E (normalizeImageUrl imageUrl) = After t (Responded imgRes) \<and>
        t < 15000 \<and> \<not> resOk imgRes \<longrightarrow>
      identifyAwaited P E d req =
        Some (d, \<lparr>rsp_status = 400,
             rsp_body = JObj [(js ''error'', JStr (js ''Could not fetch imageUrl (HTTP '' @
                                 showNat (res_status imgRes) @ js '')''))]\<rparr>)) \<and>
     (\<forall>t imgRes imgBlob.
        env_image_fetch E (normalizeImageUrl imageUrl) = After t (Responded imgRes) \<and>
        t < 15000 \<and> resOk imgRes \<and> res_body_arrives imgRes \<and> res_blob imgRes = Inr imgBlob \<and>
        (env_plantnet_fetch E
           (plantNetForm P apiKey imgRes imgBlob
              (orElse (getProp body ''organ'') (JStr (js ''leaf''))))
           = Never \<or>
         (\<exists>t2 r. env_plantnet_fetch E
           (plantNetForm P apiKey imgRes imgBlob
              (orElse (getProp body ''organ'') (JStr (js ''leaf''))))
           = After t2 r \<and> 30000 \<le> t2)) \<longrightarrow>
        identifyAwaited P E d req =
          Some (d, \<lparr>rsp_status = 408,
               rsp_body = errorBody ''PlantNet API timeout after 30 seconds''\<rparr>)) \<and>
     (\<forall>t imgRes imgBlob t2 idRes.
        env_image_fetch E (normalizeImageUrl imageUrl) = After t (Responded imgRes) \<and>
        t < 15000 \<and> resOk imgRes \<and> res_body_arrives imgRes \<and> res_blob imgRes = Inr imgBlob \<and>
        env_plantnet_fetch E
           (plantNetForm P apiKey imgRes imgBlob
              (orElse (getProp body ''organ'') (JStr (js ''leaf''))))
           = After t2 (Responded idRes) \<and>
        t2 < 30000 \<and> res_body_arrives idRes \<and> \<not> resOk idRes \<longrightarrow>
        identifyAwaited P E d req =
          Some (d, \<lparr>rsp_status = 502,
               rsp_body = JObj
                 [(js ''error'', JStr (js ''PlantNet request failed'')),
                  (js ''status'', JNum (of_nat (res_status idRes))),
                  (js ''details'', case res_json idRes of None \<Rightarrow> JObj [] | Some j \<Rightarrow> j)]\<rparr>))"
  unfolding tryBlockAwaited_reached [OF assms]
  by (auto simp: tryBlockAwaited_def callPlantNetAwaited_def withTimeout_def plantNetFailed_def
      rawOf_def split: option.splits)

text \<open>
  An image fetch that never settles, an image answered with 404, a PlantNet answer that takes
  30 seconds, and a PlantNet answer 503 whose body is JSON.
\<close>

theorem fetch_failures_answered_witness:
  "identifyAwaited exPlatform (exEnvOf Never Never) emptyDb (exRequest []) =
     Some (emptyDb,
       \<lparr>rsp_status = 408, rsp_body = errorBody ''Image fetch timeout after 15 seconds''\<rparr>) \<and>
   identifyAwaited exPlatform (exEnvOf (After 120 (Responded exNotFound)) Never) emptyDb
       (exRequest []) =
     Some (emptyDb, \<lparr>rsp_status = 400,
        rsp_body = JObj [(js ''error'', JStr (js ''Could not fetch imageUrl (HTTP '' @
                           showNat (res_status exNotFound) @ js '')''))]\<rparr>) \<and>
   identifyAwaited exPlatform
       (exEnvOf (After 120 (Responded exImage)) (After 30000 (Responded (exAnswer 200 [] (Some exRaw)))))
       emptyDb (exRequest []) =
     Some (emptyDb,
       \<lparr>rsp_status = 408, rsp_body = errorBody ''PlantNet API timeout after 30 seconds''\<rparr>) \<and>
   identifyAwaited exPlatform (exEnv exOverloaded) emptyDb (exRequest []) =
     Some (emptyDb, \<lparr>rsp_status = 502,
        rsp_body = JObj
          [(js ''error'', JStr (js ''PlantNet request failed'')),
           (js ''status'', JNum (of_nat (res_status exOverloaded))),
           (js ''details'', case res_json exOverloaded of None \<Rightarrow> JObj [] | Some j \<Rightarrow> j)]\<rparr>)"
proof -
  have a: "req_method (exRequest []) = js ''POST''"
    "req_body (exRequest []) = Some (exBody [])"
    "getProp (exBody []) ''imageUrl'' = JStr (js ''https://example.org/oak.jpg'')"
    "js ''https://example.org/oak.jpg'' \<noteq> []"
    "env_plantnet_key (exEnvOf ia aa) = Some (js ''secret'')"
    "js ''secret'' \<noteq> []"
    "organIsValid (orElse (getProp (exBody []) ''organ'') (JStr (js ''leaf'')))" for ia aa
    by (simp_all add: exRequest_def exBody_def exEnvOf_def orElse_def validOrgans_def js_def)
  have f: "env_image_fetch (exEnvOf ia aa) u = ia"
    "env_plantnet_fetch (exEnvOf ia aa) form = aa" for ia aa u form
    by (simp_all add: exEnvOf_def)
  have s: "\<not> resOk exNotFound" "resOk exImage" "res_body_arrives exImage"
    "res_blob exImage = Inr exBlob" "\<not> resOk exOverloaded" "res_body_arrives exOverloaded"
    by (simp_all add: resOk_def exNotFound_def exImage_def exOverloaded_def exAnswer_def)
  note T = fetch_failures_answered [OF a, of _ _ exPlatform emptyDb]
  have 1: "identifyAwaited exPlatform (exEnvOf Never Never) emptyDb (exRequest []) =
     Some (emptyDb,
       \<lparr>rsp_status = 408, rsp_body = errorBody ''Image fetch timeout after 15 seconds''\<rparr>)"
    by (rule T [THEN conjunct1, rule_format]) (simp add: f)
  have 2: "identifyAwaited exPlatform (exEnvOf (After 120 (Responded exNotFound)) Never) emptyDb
       (exRequest []) =
     Some (emptyDb, \<lparr>rsp_status = 400,
        rsp_body = JObj [(js ''error'', JStr (js ''Could not fetch imageUrl (HTTP '' @
                           showNat (res_status exNotFound) @ js '')''))]\<rparr>)"
    by (rule T [THEN conjunct2, THEN conjunct1, rule_format, of _ _ 120]) (simp add: f s)
  have 3: "identifyAwaited exPlatform
       (exEnvOf (After 120 (Responded exImage)) (After 30000 (Responded (exAnswer 200 [] (Some exRaw)))))
       emptyDb (exRequest []) =
     Some (emptyDb,
       \<lparr>rsp_status = 408, rsp_body = errorBody ''PlantNet API timeout after 30 seconds''\<rparr>)"
    by (rule T [THEN conjunct2, THEN conjunct2, THEN conjunct1, rule_format, of _ _ 120 exImage exBlob])
       (simp add: f s)
  have 4: "identifyAwaited exPlatform (exEnv exOverloaded) emptyDb (exRequest []) =
     Some (emptyDb, \<lparr>rsp_status = 502,
        rsp_body = JObj
          [(js ''error'', JStr (js ''PlantNet request failed'')),
           (js ''status'', JNum (of_nat (res_status exOverloaded))),
           (js ''details'', case res_json exOverloaded of None \<Rightarrow> JObj [] | Some j \<Rightarrow> j)]\<rparr>)"
    unfolding exEnv_def
    by (rule T [THEN conjunct2, THEN conjunct2, THEN conjunct2, rule_format,
          of _ _ 120 exImage exBlob 900])
       (simp add: f s)
  from 1 2 3 4 show ?thesis by (intro conjI)
qed

text \<open>
  As the claim states it, the 502 response would carry PlantNet's body, and no fetch would
  keep the handler waiting. PlantNet answers 503 with the text "Service Unavailable", which is
  not JSON: the \<open>details\<close> of the 502 response are the empty object. The image is answered
  with 200 after 120 ms and its body never arrives: the handler, whose timer was cleared when
  the head arrived, never answers. Likewise when the body of PlantNet's answer never arrives.
\<close>

theorem plantnet_body_dropped_and_reads_unbounded_counterexample:
  "res_text exBadGateway = js ''Service Unavailable'' \<and>
   res_json exBadGateway = None \<and>
   \<not> resOk exBadGateway \<and>
   identifyAwaited exPlatform (exEnv exBadGateway) emptyDb (exRequest []) =
     Some (emptyDb, \<lparr>rsp_status = 502,
        rsp_body = JObj
          [(js ''error'', JStr (js ''PlantNet request failed'')),
           (js ''status'', JNum 503),
           (js ''details'', JObj [])]\<rparr>) \<and>
   identifyAwaited exPlatform (exEnvOf (After 120 (Responded exStalledImage)) Never) emptyDb
       (exRequest []) = None \<and>
   identifyAwaited exPlatform (exEnv exStalledAnswer) emptyDb (exRequest []) = None"
  by (simp add: run_defs awaited_defs exBadGateway_def)

text \<open>
  C8. Each operation on the database leaves \<open>trees\<close> as it is or appends one row with a new
  identifier, so after any sequence of operations the earlier table is an unchanged prefix
  of the later one.
\<close>

theorem trees_append_only:
  "prefix (trees d) (trees (run P d as)) \<and>
   (trees (step P d a) = trees d \<or>
    (\<exists>row. trees (step P d a) = trees d @ [row] \<and> t_id row \<notin> set (map t_id (trees d))))"
  using run_trees [of d P as] step_trees [of d P a] by (simp add: appendsAtMostOne_def)



text \<open>
  C10. \<open>slugifyKey\<close> is idempotent, the value bound to \<open>plantKeyLc\<close> equals \<open>plantKey\<close>,
  and in the payload of both upserts of \<open>plants\<close> the members \<open>key\<close> and \<open>key_lc\<close> coincide.
\<close>

theorem slugifyKey_idempotent_key_lc:
  "slugifyKey P (slugifyKey P s) = slugifyKey P s \<and>
   plantKeyLcOf P (plantKeyOf P best) = plantKeyOf P best \<and>
   pl_key_lc (firstPayload P best refs) = pl_key (firstPayload P best refs) \<and>
   pl_key_lc (secondPayload P E best refs) = pl_key (secondPayload P E best refs)"
proof -
  have u: "\<forall>c \<in> set (plantKeyOf P best). isSlugUnit c"
    unfolding plantKeyOf_def by (rule slugifyKey_units)
  have lc: "plantKeyLcOf P (plantKeyOf P best) = plantKeyOf P best"
    unfolding plantKeyOf_def by (rule plantKeyLcOf_slug)
  show ?thesis
    by (simp add: slugifyKey_fixed lc firstPayload_def secondPayload_def toLowerCase_slug [OF u])
qed

end
